theory Spec2Isabelle
  imports Complex_Main "HOL-Library.AList" "HOL-Library.Multiset"
begin

section \<open>Python values as the detection code observes them\<close>

text \<open>
  Strings are ASCII byte strings. \<open>upper\<close>, \<open>lower\<close> and \<open>strip\<close> are Python's
  \<^verbatim>\<open>str.upper\<close>, \<^verbatim>\<open>str.lower\<close> and \<^verbatim>\<open>str.strip\<close> on such strings.
\<close>

definition ascii_lowercase :: string where
  "ascii_lowercase = ''abcdefghijklmnopqrstuvwxyz''"

definition ascii_uppercase :: string where
  "ascii_uppercase = ''ABCDEFGHIJKLMNOPQRSTUVWXYZ''"

definition upper_char :: "char \<Rightarrow> char" where
  "upper_char c =
     (case map_of (zip ascii_lowercase ascii_uppercase) c of Some d \<Rightarrow> d | None \<Rightarrow> c)"

definition lower_char :: "char \<Rightarrow> char" where
  "lower_char c =
     (case map_of (zip ascii_uppercase ascii_lowercase) c of Some d \<Rightarrow> d | None \<Rightarrow> c)"

definition upper :: "string \<Rightarrow> string" where
  "upper s = map upper_char s"

definition lower :: "string \<Rightarrow> string" where
  "lower s = map lower_char s"

definition is_space :: "char \<Rightarrow> bool" where
  "is_space c = (c \<in> set [CHR '' '', CHR 0x09, CHR 0x0A, CHR 0x0B, CHR 0x0C, CHR 0x0D,
                           CHR 0x1C, CHR 0x1D, CHR 0x1E, CHR 0x1F])"

definition strip :: "string \<Rightarrow> string" where
  "strip s = rev (dropWhile is_space (rev (dropWhile is_space s)))"

text \<open>\<^verbatim>\<open>str.title\<close>; the code applies it to \<^verbatim>\<open>'medium'\<close> and \<^verbatim>\<open>'high'\<close> only (one word).\<close>

definition title :: "string \<Rightarrow> string" where
  "title s = (case s of [] \<Rightarrow> [] | c # cs \<Rightarrow> upper_char c # lower cs)"

text \<open>\<^verbatim>\<open>sep.join(xs)\<close>\<close>

fun join :: "string \<Rightarrow> string list \<Rightarrow> string" where
  "join sep [] = []"
| "join sep [x] = x"
| "join sep (x # y # ys) = x @ sep @ join sep (y # ys)"

text \<open>
  A cell of a pandas frame: the missing marker \<open>NaN\<close>, Python's \<open>None\<close>, a string, a
  boolean or a number. Numbers are exact rationals: rounding and infinities of IEEE
  floats are not modelled.
\<close>

datatype cell = NaN | PyNone | Str string | Bool bool | Num rat

text \<open>The result of \<^verbatim>\<open>float(x)\<close>: a finite number or Python's \<^verbatim>\<open>nan\<close>.\<close>

datatype pyfloat = Finite rat | NotANumber

datatype py_error = ValueError | TypeError | KeyError | IndexError | RuntimeError

text \<open>
  Library functions on numbers and text that the code calls and this development does not
  fix: \<open>float_repr\<close> is \<^verbatim>\<open>str(x)\<close> of a number, \<open>float_of_str\<close> is \<^verbatim>\<open>float(s)\<close> of a
  string (\<open>None\<close> when it raises \<^verbatim>\<open>ValueError\<close>), \<open>to_numeric_str\<close> is what
  \<^verbatim>\<open>pd.to_numeric(..., errors='coerce')\<close> makes of one string (\<open>None\<close> for NaN),
  \<open>format_amount\<close> is the format \<^verbatim>\<open>f"{amount:,.2f}"\<close>. Every definition below takes them
  as the parameter \<open>lib\<close>, and every theorem holds for all of them.
\<close>

record pylib =
  float_repr :: "rat \<Rightarrow> string"
  float_of_str :: "string \<Rightarrow> pyfloat option"
  to_numeric_str :: "string \<Rightarrow> rat option"
  format_amount :: "rat \<Rightarrow> string"

text \<open>\<^verbatim>\<open>pd.notna(x)\<close> and \<^verbatim>\<open>str(x)\<close>\<close>

fun notna :: "cell \<Rightarrow> bool" where
  "notna NaN = False"
| "notna PyNone = False"
| "notna _ = True"

fun py_str :: "pylib \<Rightarrow> cell \<Rightarrow> string" where
  "py_str lib NaN = ''nan''"
| "py_str lib PyNone = ''None''"
| "py_str lib (Str s) = s"
| "py_str lib (Bool b) = (if b then ''True'' else ''False'')"
| "py_str lib (Num r) = float_repr lib r"

text \<open>\<^verbatim>\<open>float(x)\<close>: \<^verbatim>\<open>ValueError\<close> on a string that does not parse, \<^verbatim>\<open>TypeError\<close> on \<open>None\<close>.\<close>

fun py_float :: "pylib \<Rightarrow> cell \<Rightarrow> py_error + pyfloat" where
  "py_float lib NaN = Inr NotANumber"
| "py_float lib PyNone = Inl TypeError"
| "py_float lib (Str s) =
     (case float_of_str lib s of None \<Rightarrow> Inl ValueError | Some f \<Rightarrow> Inr f)"
| "py_float lib (Bool b) = Inr (Finite (if b then 1 else 0))"
| "py_float lib (Num r) = Inr (Finite r)"

text \<open>\<^verbatim>\<open>amount > threshold\<close>: every comparison with \<^verbatim>\<open>nan\<close> is false.\<close>

fun float_gt :: "pyfloat \<Rightarrow> rat \<Rightarrow> bool" where
  "float_gt (Finite a) t = (a > t)"
| "float_gt NotANumber t = False"

text \<open>
  One row of a frame as \<^verbatim>\<open>iterrows\<close> yields it: a Series indexed by the column names.
  \<open>row k = None\<close> is a column the frame does not have (\<^verbatim>\<open>row.get(k)\<close> is \<open>None\<close>).
\<close>

type_synonym series = "string \<rightharpoonup> cell"

text \<open>\<^verbatim>\<open>row.get(k, default)\<close>; \<^verbatim>\<open>row.get(k)\<close> is \<open>row_get row k PyNone\<close>.\<close>

definition row_get :: "series \<Rightarrow> string \<Rightarrow> cell \<Rightarrow> cell" where
  "row_get row k d = (case row k of None \<Rightarrow> d | Some v \<Rightarrow> v)"

text \<open>\<^verbatim>\<open>str(row.get(k, ''))\<close>, the reading of every text field.\<close>

definition get_str :: "pylib \<Rightarrow> series \<Rightarrow> string \<Rightarrow> string" where
  "get_str lib row k = py_str lib (row_get row k (Str []))"

section \<open>The detection agent (aml\_detection\_agent.py)\<close>

record agent =
  high_amount_threshold_percentile :: rat
  high_amount_threshold :: "rat option"

definition aml_rules :: "(string \<times> string list) list" where
  "aml_rules =
     [(''MAS'', [''cdd_required'', ''edd_for_high_risk'', ''str_reporting'', ''pep_screening'',
                 ''sanctions_screening'']),
      (''FINMA'', [''cdd_required'', ''edd_for_high_risk'', ''str_reporting'', ''pep_screening'',
                   ''sanctions_screening'']),
      (''HKMA/SFC'', [''cdd_required'', ''edd_for_high_risk'', ''str_reporting'',
                      ''pep_screening'', ''sanctions_screening''])]"

definition new_agent :: "rat \<Rightarrow> agent" where
  "new_agent p = \<lparr>high_amount_threshold_percentile = p, high_amount_threshold = None\<rparr>"

text \<open>Truth value of \<^verbatim>\<open>self.high_amount_threshold\<close>: \<open>None\<close> and zero are false.\<close>

definition threshold_truthy :: "agent \<Rightarrow> bool" where
  "threshold_truthy ag = (case high_amount_threshold ag of None \<Rightarrow> False | Some t \<Rightarrow> t \<noteq> 0)"

text \<open>\<^verbatim>\<open>amount > self.high_amount_threshold\<close>, evaluated only when the threshold is truthy.\<close>

definition above_threshold :: "agent \<Rightarrow> pyfloat \<Rightarrow> bool" where
  "above_threshold ag a =
     (case high_amount_threshold ag of None \<Rightarrow> False | Some t \<Rightarrow> float_gt a t)"

text \<open>\<^verbatim>\<open>f"{amount:,.2f}"\<close>\<close>

fun fmt_amount :: "pylib \<Rightarrow> pyfloat \<Rightarrow> string" where
  "fmt_amount lib (Finite a) = format_amount lib a"
| "fmt_amount lib NotANumber = ''nan''"

subsection \<open>check\_high\_risk\_variables\<close>

text \<open>
  The function keeps two locals, \<^verbatim>\<open>is_high_risk\<close> and \<^verbatim>\<open>reasons\<close>, and runs eight rules
  in order; each rule is modelled as a step on that pair.
\<close>

type_synonym hr_state = "bool \<times> string list"

definition hr_flag :: "string \<Rightarrow> hr_state \<Rightarrow> hr_state" where
  "hr_flag msg st = (True, snd st @ [msg])"

definition hr_rule1 :: "pylib \<Rightarrow> series \<Rightarrow> hr_state \<Rightarrow> hr_state" where
  "hr_rule1 lib row st =
     (if notna (row_get row ''customer_is_pep'' PyNone)
         \<and> upper (py_str lib (row_get row ''customer_is_pep'' PyNone)) = ''TRUE''
      then hr_flag ''Customer is a Politically Exposed Person (PEP)'' st else st)"

definition hr_rule2 :: "pylib \<Rightarrow> series \<Rightarrow> hr_state \<Rightarrow> hr_state" where
  "hr_rule2 lib row st =
     (if lower (get_str lib row ''customer_type'') = ''domiciliary_company''
      then (let edd_performed = upper (get_str lib row ''edd_performed'')
            in if edd_performed \<noteq> ''TRUE''
               then hr_flag ''Domiciliary company without Enhanced Due Diligence (EDD)'' st
               else st)
      else st)"

definition hr_rule3 :: "pylib \<Rightarrow> series \<Rightarrow> hr_state \<Rightarrow> hr_state" where
  "hr_rule3 lib row st =
     (let edd_required = upper (get_str lib row ''edd_required'')
      in if edd_required = ''TRUE''
         then (let edd_performed = upper (get_str lib row ''edd_performed'')
               in if edd_performed \<noteq> ''TRUE''
                  then hr_flag ''EDD required but not performed'' st else st)
         else st)"

definition hr_rule4 :: "pylib \<Rightarrow> series \<Rightarrow> hr_state \<Rightarrow> hr_state" where
  "hr_rule4 lib row st =
     (let sow_documented = upper (get_str lib row ''sow_documented'')
      in if sow_documented = ''FALSE''
         then hr_flag ''Source of Wealth (SOW) not documented'' st else st)"

text \<open>
  Rule 5 converts the amount inside \<^verbatim>\<open>try\<close>; the handler catches \<^verbatim>\<open>ValueError\<close> and
  \<^verbatim>\<open>TypeError\<close> and passes, any other exception would leave the function.
\<close>

definition hr_rule5 :: "pylib \<Rightarrow> agent \<Rightarrow> series \<Rightarrow> hr_state \<Rightarrow> py_error + hr_state" where
  "hr_rule5 lib ag row st =
     (if notna (row_get row ''amount'' PyNone)
      then (case py_float lib (row_get row ''amount'' (Num 0)) of
              Inl e \<Rightarrow> (if e = ValueError \<or> e = TypeError then Inr st else Inl e)
            | Inr amount \<Rightarrow>
                (let client_risk = lower (get_str lib row ''client_risk_profile'')
                 in if client_risk = ''low'' \<and> threshold_truthy ag \<and> above_threshold ag amount
                    then Inr (hr_flag (''Low risk profile customer with unusually high amount (''
                                        @ fmt_amount lib amount @ '')'') st)
                    else Inr st))
      else Inr st)"

definition hr_rule6 :: "pylib \<Rightarrow> series \<Rightarrow> hr_state \<Rightarrow> hr_state" where
  "hr_rule6 lib row st =
     (let suitability_assessed = upper (get_str lib row ''suitability_assessed'')
      in if suitability_assessed = ''FALSE''
         then hr_flag ''Suitability not assessed'' st else st)"

definition hr_rule7 :: "pylib \<Rightarrow> series \<Rightarrow> hr_state \<Rightarrow> hr_state" where
  "hr_rule7 lib row st =
     (let suitability_assessed = upper (get_str lib row ''suitability_assessed'')
      in if suitability_assessed = ''TRUE''
         then (let suitability_result = lower (get_str lib row ''suitability_result'')
               in if suitability_result = ''mismatch''
                  then hr_flag ''Suitability assessment shows mismatch'' st else st)
         else st)"

definition hr_rule8 :: "pylib \<Rightarrow> series \<Rightarrow> hr_state \<Rightarrow> hr_state" where
  "hr_rule8 lib row st =
     (let cash_id_verified = upper (get_str lib row ''cash_id_verified'')
      in if cash_id_verified = ''FALSE''
         then hr_flag ''Cash ID not verified'' st else st)"

definition check_high_risk_variables ::
    "pylib \<Rightarrow> agent \<Rightarrow> series \<Rightarrow> py_error + (bool \<times> string list)" where
  "check_high_risk_variables lib ag row =
     (case hr_rule5 lib ag row
             (hr_rule4 lib row (hr_rule3 lib row (hr_rule2 lib row (hr_rule1 lib row (False, []))))) of
        Inl e \<Rightarrow> Inl e
      | Inr st \<Rightarrow> Inr (hr_rule8 lib row (hr_rule7 lib row (hr_rule6 lib row st))))"

subsection \<open>check\_suspicious\_detection\_variables\<close>

text \<open>The locals are \<^verbatim>\<open>count\<close> and \<^verbatim>\<open>reasons\<close>; five rules run in order.\<close>

type_synonym sd_state = "int \<times> string list"

definition sd_count :: "string \<Rightarrow> sd_state \<Rightarrow> sd_state" where
  "sd_count msg st = (fst st + 1, snd st @ [msg])"

definition sd_rule1 :: "pylib \<Rightarrow> series \<Rightarrow> sd_state \<Rightarrow> sd_state" where
  "sd_rule1 lib row st =
     (let regulator = strip (get_str lib row ''regulator'')
      in if regulator \<in> fst ` set aml_rules
         then (if regulator = ''MAS''
               then (if lower (get_str lib row ''customer_type'') = ''domiciliary_company''
                     then (if upper (get_str lib row ''edd_performed'') \<noteq> ''TRUE''
                           then sd_count ''MAS: Domiciliary company without EDD (AML violation)'' st
                           else st)
                     else st)
               else if regulator = ''FINMA''
               then (let customer_risk = lower (get_str lib row ''customer_risk_rating'')
                     in if customer_risk \<in> set [''high'', ''medium'']
                        then (if upper (get_str lib row ''edd_performed'') \<noteq> ''TRUE''
                              then sd_count
                                ''FINMA: High/Medium risk customer without EDD (AML violation)'' st
                              else st)
                        else st)
               else if regulator = ''HKMA/SFC''
               then (if upper (get_str lib row ''sow_documented'') = ''FALSE''
                     then sd_count ''HKMA/SFC: Missing SOW documentation (AML violation)'' st
                     else st)
               else st)
         else st)"

definition sd_rule2 :: "pylib \<Rightarrow> agent \<Rightarrow> series \<Rightarrow> sd_state \<Rightarrow> py_error + sd_state" where
  "sd_rule2 lib ag row st =
     (if notna (row_get row ''amount'' PyNone) \<and> threshold_truthy ag
      then (case py_float lib (row_get row ''amount'' (Num 0)) of
              Inl e \<Rightarrow> (if e = ValueError \<or> e = TypeError then Inr st else Inl e)
            | Inr amount \<Rightarrow>
                (let client_risk = lower (get_str lib row ''client_risk_profile'')
                 in if client_risk = ''low'' \<and> above_threshold ag amount
                    then Inr (sd_count (''Unusually high amount ('' @ fmt_amount lib amount
                                         @ '') for low risk profile customer'') st)
                    else Inr st))
      else Inr st)"

definition sd_rule3 :: "pylib \<Rightarrow> series \<Rightarrow> sd_state \<Rightarrow> sd_state" where
  "sd_rule3 lib row st =
     (if lower (get_str lib row ''customer_type'') = ''domiciliary_company''
      then sd_count ''Customer type is domiciliary company'' st else st)"

definition sd_rule4 :: "pylib \<Rightarrow> series \<Rightarrow> sd_state \<Rightarrow> sd_state" where
  "sd_rule4 lib row st =
     (let customer_risk = lower (get_str lib row ''customer_risk_rating'')
      in if customer_risk \<in> set [''medium'', ''high'']
         then sd_count (''Customer risk rating is '' @ title customer_risk) st else st)"

definition sd_rule5 :: "pylib \<Rightarrow> series \<Rightarrow> sd_state \<Rightarrow> sd_state" where
  "sd_rule5 lib row st =
     (let sanctions = lower (get_str lib row ''sanctions_screening'')
      in if sanctions = ''potential''
         then sd_count ''Sanctions screening shows potential match'' st else st)"

definition check_suspicious_detection_variables ::
    "pylib \<Rightarrow> agent \<Rightarrow> series \<Rightarrow> py_error + (int \<times> string list)" where
  "check_suspicious_detection_variables lib ag row =
     (case sd_rule2 lib ag row (sd_rule1 lib row (0, [])) of
        Inl e \<Rightarrow> Inl e
      | Inr st \<Rightarrow> Inr (sd_rule5 lib row (sd_rule4 lib row (sd_rule3 lib row st))))"

subsection \<open>classify\_risk and the loop body of process\_dataframe\<close>

definition classify_risk :: "bool \<Rightarrow> int \<Rightarrow> string" where
  "classify_risk high_risk_detected suspicious_count =
     (if high_risk_detected then ''HIGH PRIORITY RISK''
      else if suspicious_count = 0 then []
      else if suspicious_count = 1 then []
      else if suspicious_count = 2 then ''LOW RISK''
      else if suspicious_count \<ge> 3 \<and> suspicious_count \<le> 4 then ''MEDIUM RISK''
      else if suspicious_count \<ge> 5 then ''HIGH PRIORITY RISK''
      else [])"

record detection_result =
  transaction_id :: cell
  is_suspicious :: int
  risk_category :: string
  suspicious_detection_count :: int
  high_risk_detected :: int
  reasons :: string

text \<open>The body of the loop of \<^verbatim>\<open>process_dataframe\<close>: one row to one result.\<close>

definition detect_row :: "pylib \<Rightarrow> agent \<Rightarrow> series \<Rightarrow> py_error + detection_result" where
  "detect_row lib ag row =
     (case check_high_risk_variables lib ag row of
        Inl e \<Rightarrow> Inl e
      | Inr (is_high_risk, high_risk_reasons) \<Rightarrow>
     (case check_suspicious_detection_variables lib ag row of
        Inl e \<Rightarrow> Inl e
      | Inr (suspicious_count, suspicious_reasons) \<Rightarrow>
          (let risk_category = classify_risk is_high_risk suspicious_count;
               all_reasons = high_risk_reasons @ suspicious_reasons
           in Inr \<lparr>transaction_id = row_get row ''transaction_id'' (Str []),
                   is_suspicious = (if risk_category \<noteq> [] then 1 else 0),
                   risk_category = risk_category,
                   suspicious_detection_count = suspicious_count,
                   high_risk_detected = (if is_high_risk then 1 else 0),
                   reasons = (if all_reasons \<noteq> [] then join ''; '' all_reasons
                              else ''No suspicious indicators'')\<rparr>)))"

subsection \<open>Frames, the threshold and process\_dataframe\<close>

text \<open>
  A frame has its column names and its records. A record that lacks a value for one of the
  frame's columns holds \<open>NaN\<close> there, as pandas fills it; \<open>iterrows\<close> yields each record
  as a Series over exactly the frame's columns, and \<open>column\<close> is \<^verbatim>\<open>df[c]\<close>, which raises
  \<^verbatim>\<open>KeyError\<close> for a column the frame does not have.
\<close>

record dataframe =
  columns :: "string list"
  rows :: "series list"

definition cell_of :: "series \<Rightarrow> string \<Rightarrow> cell" where
  "cell_of r c = (case r c of None \<Rightarrow> NaN | Some v \<Rightarrow> v)"

definition as_series :: "string list \<Rightarrow> series \<Rightarrow> series" where
  "as_series cols r = (\<lambda>c. if c \<in> set cols then Some (cell_of r c) else None)"

definition iterrows :: "dataframe \<Rightarrow> series list" where
  "iterrows df = map (as_series (columns df)) (rows df)"

definition column :: "dataframe \<Rightarrow> string \<Rightarrow> py_error + cell list" where
  "column df c =
     (if c \<in> set (columns df) then Inr (map (\<lambda>r. cell_of r c) (rows df)) else Inl KeyError)"

text \<open>
  \<^verbatim>\<open>pd.to_numeric(..., errors='coerce')\<close> on one cell (\<open>None\<close> is NaN), and
  \<^verbatim>\<open>.dropna()\<close> on the converted column.
\<close>

fun to_numeric :: "pylib \<Rightarrow> cell \<Rightarrow> rat option" where
  "to_numeric lib NaN = None"
| "to_numeric lib PyNone = None"
| "to_numeric lib (Str s) = to_numeric_str lib s"
| "to_numeric lib (Bool b) = Some (if b then 1 else 0)"
| "to_numeric lib (Num r) = Some r"

definition numeric_amounts :: "pylib \<Rightarrow> cell list \<Rightarrow> rat list" where
  "numeric_amounts lib col = List.map_filter (to_numeric lib) col"

text \<open>
  \<^verbatim>\<open>np.percentile(a, q)\<close> with numpy's default linear interpolation: on the sorted
  values, the virtual index is \<open>(n - 1) * q / 100\<close>, and the result interpolates between
  the two neighbouring values. numpy raises \<^verbatim>\<open>ValueError\<close> for \<open>q\<close> outside 0..100. The
  code never calls it on an empty array (it checks \<^verbatim>\<open>len(amounts) > 0\<close> first); that case
  is an error here, so that no value is invented for it.
\<close>

definition percentile :: "rat list \<Rightarrow> rat \<Rightarrow> py_error + rat" where
  "percentile a q =
     (if q < 0 \<or> 100 < q then Inl ValueError
      else if a = [] then Inl IndexError
      else (let s = sort a;
                n = length s;
                virtual_index = of_nat (n - 1) * (q / 100);
                previous_index = nat \<lfloor>virtual_index\<rfloor>;
                next_index = min (previous_index + 1) (n - 1);
                gamma = virtual_index - of_nat previous_index
            in Inr (s ! previous_index + gamma * (s ! next_index - s ! previous_index))))"

text \<open>The body of the \<^verbatim>\<open>try\<close> of \<^verbatim>\<open>calculate_high_amount_threshold\<close>.\<close>

definition threshold_of_frame :: "pylib \<Rightarrow> agent \<Rightarrow> dataframe \<Rightarrow> py_error + rat" where
  "threshold_of_frame lib ag df =
     (case column df ''amount'' of
        Inl e \<Rightarrow> Inl e
      | Inr col \<Rightarrow>
          (let amounts = numeric_amounts lib col
           in if length amounts > 0
              then percentile amounts (high_amount_threshold_percentile ag)
              else Inr 1000000))"

text \<open>\<^verbatim>\<open>except Exception\<close>: every error gives the default threshold.\<close>

definition calculate_high_amount_threshold :: "pylib \<Rightarrow> agent \<Rightarrow> dataframe \<Rightarrow> agent" where
  "calculate_high_amount_threshold lib ag df =
     ag\<lparr>high_amount_threshold :=
          Some (case threshold_of_frame lib ag df of Inl e \<Rightarrow> 1000000 | Inr t \<Rightarrow> t)\<rparr>"

text \<open>The \<^verbatim>\<open>for\<close> loop of \<^verbatim>\<open>process_dataframe\<close>: the agent is read, never written.\<close>

fun score_rows :: "pylib \<Rightarrow> agent \<Rightarrow> series list \<Rightarrow> py_error + detection_result list" where
  "score_rows lib ag [] = Inr []"
| "score_rows lib ag (row # rest) =
     (case detect_row lib ag row of
        Inl e \<Rightarrow> Inl e
      | Inr res \<Rightarrow>
          (case score_rows lib ag rest of Inl e \<Rightarrow> Inl e | Inr rs \<Rightarrow> Inr (res # rs)))"

text \<open>\<^verbatim>\<open>process_dataframe\<close> returns the results and leaves the threshold in the agent.\<close>

definition process_dataframe ::
    "pylib \<Rightarrow> agent \<Rightarrow> dataframe \<Rightarrow> py_error + (agent \<times> detection_result list)" where
  "process_dataframe lib ag df =
     (let ag' = calculate_high_amount_threshold lib ag df
      in case score_rows lib ag' (iterrows df) of
           Inl e \<Rightarrow> Inl e
         | Inr results \<Rightarrow> Inr (ag', results))"

section \<open>The service (api\_server.py)\<close>

subsection \<open>Time and the resolution map\<close>

text \<open>
  A naive \<^verbatim>\<open>datetime\<close> is a count of microseconds; \<^verbatim>\<open>timedelta(days=n)\<close> is \<open>days n\<close>.
  The calendar is not modelled.
\<close>

definition days :: "int \<Rightarrow> int" where
  "days n = n * 86400000000"

definition RETENTION_DAYS :: int where
  "RETENTION_DAYS = 30"


text \<open>
  The code keeps \<^verbatim>\<open>resolved_at\<close> as text and reads it back with
  \<^verbatim>\<open>datetime.fromisoformat(ts.replace("Z", ""))\<close>. The model keeps of such a text what
  that reading makes of it: \<open>IsoNaive t\<close> is a text that parses to the naive datetime \<open>t\<close>
  (as \<^verbatim>\<open>t.isoformat() + "Z"\<close> does: the library reads its own format back), \<open>IsoAware t\<close>
  a text with a UTC offset, which parses to an aware datetime, and \<open>NotIso s\<close> a text that
  \<^verbatim>\<open>fromisoformat\<close> rejects with \<^verbatim>\<open>ValueError\<close>.
\<close>

datatype timestamp_text = IsoNaive int | IsoAware int | NotIso string

datatype datetime = Naive int | Aware int

fun fromisoformat :: "timestamp_text \<Rightarrow> py_error + datetime" where
  "fromisoformat (IsoNaive t) = Inr (Naive t)"
| "fromisoformat (IsoAware t) = Inr (Aware t)"
| "fromisoformat (NotIso s) = Inl ValueError"

text \<open>\<^verbatim>\<open>dt < cutoff\<close>: comparing a naive with an aware datetime raises \<^verbatim>\<open>TypeError\<close>.\<close>

fun datetime_less :: "datetime \<Rightarrow> datetime \<Rightarrow> py_error + bool" where
  "datetime_less (Naive a) (Naive b) = Inr (a < b)"
| "datetime_less (Aware a) (Aware b) = Inr (a < b)"
| "datetime_less _ _ = Inl TypeError"

record resolution =
  note_text :: string
  resolved_at :: timestamp_text

text \<open>
  The clock readings a request takes: \<^verbatim>\<open>datetime.utcnow()\<close>, \<^verbatim>\<open>time.time()\<close> in seconds,
  and \<^verbatim>\<open>month_key(datetime.utcnow())\<close>, the year and month of \<open>utcnow\<close> as text.
\<close>

record clock =
  utcnow :: int
  time_time :: rat
  utc_month :: string

text \<open>A file of the reports directory: what was written, and its modification time.\<close>

record summary =
  summary_month :: string
  generated_at :: timestamp_text
  total_flagged :: nat
  resolved_count :: nat
  unresolved_count :: nat
  by_regulator :: "(cell \<times> nat) list"
  by_category :: "(cell \<times> nat) list"

datatype file_content = CsvExtract "string list" "series list" | JsonSummary summary

record report_file =
  content :: file_content
  mtime :: rat

text \<open>
  The module's globals: the loaded and the scored frame, the agent, the resolution map (a
  \<^verbatim>\<open>dict\<close>: keys are unique and keep their insertion order) and the files of the reports
  directory by name.
\<close>

record server =
  df_raw :: "dataframe option"
  df_scored :: "dataframe option"
  agent :: "agent option"
  resolved_alerts :: "(string \<times> resolution) list"
  reports :: "string \<rightharpoonup> report_file"

subsection \<open>purge\_old\_resolved\_alerts\<close>

text \<open>
  The loop that collects \<^verbatim>\<open>to_delete\<close>. The inner \<^verbatim>\<open>try\<close> turns a parse failure into
  \<^verbatim>\<open>dt = None\<close>; the comparison \<^verbatim>\<open>dt < cutoff\<close> is outside it, so its \<^verbatim>\<open>TypeError\<close>
  leaves the loop.
\<close>

fun collect_to_delete :: "int \<Rightarrow> (string \<times> resolution) list \<Rightarrow> py_error + string list" where
  "collect_to_delete cutoff [] = Inr []"
| "collect_to_delete cutoff ((tid, meta) # rest) =
     (let dt = (case fromisoformat (resolved_at meta) of Inl e \<Rightarrow> None | Inr d \<Rightarrow> Some d)
      in case (case dt of None \<Rightarrow> Inr True | Some d \<Rightarrow> datetime_less d (Naive cutoff)) of
           Inl e \<Rightarrow> Inl e
         | Inr del \<Rightarrow>
             (case collect_to_delete cutoff rest of
                Inl e \<Rightarrow> Inl e
              | Inr ds \<Rightarrow> Inr (if del then tid # ds else ds)))"

text \<open>
  The second loop deletes the collected keys. The outer \<^verbatim>\<open>except Exception: pass\<close> makes
  an error of the first loop a sweep that deletes nothing.
\<close>

definition purge_old_resolved_alerts :: "clock \<Rightarrow> server \<Rightarrow> server" where
  "purge_old_resolved_alerts clk st =
     (let cutoff = utcnow clk - days RETENTION_DAYS
      in case collect_to_delete cutoff (resolved_alerts st) of
           Inl e \<Rightarrow> st
         | Inr to_delete \<Rightarrow>
             st\<lparr>resolved_alerts := fold AList.delete to_delete (resolved_alerts st)\<rparr>)"

subsection \<open>Selections on the scored frame\<close>

text \<open>\<^verbatim>\<open>x == 1\<close> on a cell.\<close>

fun cell_eq_1 :: "cell \<Rightarrow> bool" where
  "cell_eq_1 (Num r) = (r = 1)"
| "cell_eq_1 (Bool b) = b"
| "cell_eq_1 _ = False"

text \<open>
  \<^verbatim>\<open>df[mask]\<close> keeps the rows on which the mask holds; \<^verbatim>\<open>df[df[c] == 1]\<close> and the masks on
  \<^verbatim>\<open>df[c].astype(str)\<close> raise \<^verbatim>\<open>KeyError\<close> when the frame has no column \<open>c\<close>.
\<close>

definition select_rows :: "(series \<Rightarrow> bool) \<Rightarrow> dataframe \<Rightarrow> dataframe" where
  "select_rows keep df = df\<lparr>rows := filter keep (rows df)\<rparr>"

definition where_eq_1 :: "string \<Rightarrow> dataframe \<Rightarrow> py_error + dataframe" where
  "where_eq_1 c df =
     (if c \<in> set (columns df) then Inr (select_rows (\<lambda>r. cell_eq_1 (cell_of r c)) df)
      else Inl KeyError)"

definition where_str :: "pylib \<Rightarrow> string \<Rightarrow> (string \<Rightarrow> bool) \<Rightarrow> dataframe \<Rightarrow> py_error + dataframe" where
  "where_str lib c p df =
     (if c \<in> set (columns df) then Inr (select_rows (\<lambda>r. p (py_str lib (cell_of r c))) df)
      else Inl KeyError)"

text \<open>\<^verbatim>\<open>df_scored[df_scored["is_suspicious"] == 1]\<close>\<close>

definition flagged_rows :: "dataframe \<Rightarrow> py_error + dataframe" where
  "flagged_rows df = where_eq_1 ''is_suspicious'' df"

subsection \<open>resolve\_alert and list\_resolved\_alerts\<close>

datatype resolve_response =
    DataNotLoaded
  | NotFound string
  | Resolved string

text \<open>
  \<^verbatim>\<open>any(flagged["transaction_id"].astype(str) == tid)\<close>, with \<^verbatim>\<open>exists = False\<close> on any
  exception.
\<close>

definition alert_exists :: "pylib \<Rightarrow> dataframe \<Rightarrow> string \<Rightarrow> bool" where
  "alert_exists lib df tid =
     (case flagged_rows df of
        Inl e \<Rightarrow> False
      | Inr flagged \<Rightarrow>
          (case column flagged ''transaction_id'' of
             Inl e \<Rightarrow> False
           | Inr ids \<Rightarrow> tid \<in> set (map (py_str lib) ids)))"

text \<open>\<^verbatim>\<open>note or ""\<close>\<close>

definition note_or_empty :: "string option \<Rightarrow> string" where
  "note_or_empty n = (case n of None \<Rightarrow> [] | Some s \<Rightarrow> s)"

definition resolve_alert ::
    "pylib \<Rightarrow> clock \<Rightarrow> string \<Rightarrow> string option \<Rightarrow> server \<Rightarrow> resolve_response \<times> server" where
  "resolve_alert lib clk tid n st =
     (case df_scored st of
        None \<Rightarrow> (DataNotLoaded, st)
      | Some df \<Rightarrow>
          if \<not> alert_exists lib df tid then (NotFound tid, st)
          else (Resolved tid,
                st\<lparr>resolved_alerts :=
                     AList.update tid \<lparr>note_text = note_or_empty n, resolved_at = IsoNaive (utcnow clk)\<rparr>
                       (resolved_alerts st)\<rparr>))"

definition list_resolved_alerts :: "clock \<Rightarrow> server \<Rightarrow> (string \<times> resolution) list \<times> server" where
  "list_resolved_alerts clk st =
     (let st' = purge_old_resolved_alerts clk st in (resolved_alerts st', st'))"

subsection \<open>get\_flags\<close>

datatype flags_response =
    FlagsNotLoaded
  | FlagsFailed py_error
  | Flags "series list"

record flag_query =
  q_customer_id :: "string option"
  q_customer_ids :: "string option"
  q_regulator :: "string option"
  q_booking_jurisdiction :: "string option"
  q_transaction_id :: "string option"
  q_resolved :: "bool option"

text \<open>Truth value of an optional text parameter: \<open>None\<close> and the empty text are false.\<close>

definition given :: "string option \<Rightarrow> bool" where
  "given p = (case p of None \<Rightarrow> False | Some s \<Rightarrow> s \<noteq> [])"

definition text_of :: "string option \<Rightarrow> string" where
  "text_of p = (case p of None \<Rightarrow> [] | Some s \<Rightarrow> s)"

text \<open>\<^verbatim>\<open>s.split(",")\<close>\<close>

fun split_comma :: "string \<Rightarrow> string list" where
  "split_comma [] = [[]]"
| "split_comma (c # cs) =
     (if c = CHR '','' then [] # split_comma cs
      else (case split_comma cs of [] \<Rightarrow> [[c]] | w # ws \<Rightarrow> (c # w) # ws))"

text \<open>
  One optional filter of the chain, applied when the parameter is given. A \<^verbatim>\<open>KeyError\<close> of
  a selection is not handled in the function: the request fails.
\<close>

definition filter_if :: "bool \<Rightarrow> (dataframe \<Rightarrow> py_error + dataframe) \<Rightarrow> py_error + dataframe
    \<Rightarrow> py_error + dataframe" where
  "filter_if cond f d = (case d of Inl e \<Rightarrow> Inl e | Inr df \<Rightarrow> if cond then f df else Inr df)"

definition flag_columns :: "string list" where
  "flag_columns =
     [''transaction_id'', ''amount'', ''currency'', ''regulator'', ''booking_jurisdiction'',
      ''customer_id'', ''customer_risk_rating'', ''risk_category'',
      ''suspicious_detection_count'', ''reasons'', ''booking_datetime'']"

text \<open>
  One returned record: the present columns of the row, and \<^verbatim>\<open>resolved\<close>, which reads
  \<^verbatim>\<open>str(r.get("transaction_id")) in resolved_alerts\<close>.
\<close>

definition flag_record :: "pylib \<Rightarrow> string list \<Rightarrow> (string \<times> resolution) list \<Rightarrow> series \<Rightarrow> series" where
  "flag_record lib present_cols resolved r =
     (let rec = as_series present_cols r;
          tid = py_str lib (row_get rec ''transaction_id'' PyNone)
      in rec(''resolved'' \<mapsto> Bool (tid \<in> fst ` set resolved)))"

definition get_flags ::
    "pylib \<Rightarrow> clock \<Rightarrow> flag_query \<Rightarrow> server \<Rightarrow> flags_response \<times> server" where
  "get_flags lib clk q st =
     (case df_scored st of
        None \<Rightarrow> (FlagsNotLoaded, st)
      | Some scored \<Rightarrow>
          (let st' = purge_old_resolved_alerts clk st;
               keys = map fst (resolved_alerts st');
               ids = filter (\<lambda>x. x \<noteq> []) (map strip (split_comma (text_of (q_customer_ids q))));
               d0 = flagged_rows scored;
               d1 = filter_if (given (q_transaction_id q))
                      (where_str lib ''transaction_id'' (\<lambda>s. s = text_of (q_transaction_id q))) d0;
               d2 = filter_if (given (q_customer_id q))
                      (where_str lib ''customer_id'' (\<lambda>s. s = text_of (q_customer_id q))) d1;
               d3 = filter_if (given (q_customer_ids q) \<and> length ids > 0)
                      (where_str lib ''customer_id'' (\<lambda>s. s \<in> set ids)) d2;
               d4 = filter_if (given (q_regulator q))
                      (where_str lib ''regulator''
                         (\<lambda>s. lower s = lower (text_of (q_regulator q)))) d3;
               d5 = filter_if (given (q_booking_jurisdiction q))
                      (where_str lib ''booking_jurisdiction''
                         (\<lambda>s. lower s = lower (text_of (q_booking_jurisdiction q)))) d4;
               d6 = filter_if (q_resolved q \<noteq> None)
                      (where_str lib ''transaction_id''
                         (\<lambda>s. if q_resolved q = Some True then s \<in> set keys else s \<notin> set keys)) d5
           in case d6 of
                Inl e \<Rightarrow> (FlagsFailed e, st')
              | Inr df \<Rightarrow>
                  (let present_cols = filter (\<lambda>c. c \<in> set (columns df)) flag_columns
                   in (Flags (map (flag_record lib present_cols (resolved_alerts st'))
                                (take 500 (rows df))), st'))))"

subsection \<open>Monthly reports\<close>













subsection \<open>load\_and\_score\<close>

text \<open>\<^verbatim>\<open>pd.DataFrame(results)\<close>: the frame of the result dictionaries; no columns when there are none.\<close>

definition result_columns :: "string list" where
  "result_columns =
     [''transaction_id'', ''is_suspicious'', ''risk_category'', ''suspicious_detection_count'',
      ''high_risk_detected'', ''reasons'']"

definition result_row :: "detection_result \<Rightarrow> series" where
  "result_row res =
     [''transaction_id'' \<mapsto> transaction_id res,
      ''is_suspicious'' \<mapsto> Num (of_int (is_suspicious res)),
      ''risk_category'' \<mapsto> Str (risk_category res),
      ''suspicious_detection_count'' \<mapsto> Num (of_int (suspicious_detection_count res)),
      ''high_risk_detected'' \<mapsto> Num (of_int (high_risk_detected res)),
      ''reasons'' \<mapsto> Str (reasons res)]"

definition results_frame :: "detection_result list \<Rightarrow> dataframe" where
  "results_frame results =
     (if results = [] then \<lparr>columns = [], rows = []\<rparr>
      else \<lparr>columns = result_columns, rows = map result_row results\<rparr>)"

text \<open>
  \<^verbatim>\<open>left.merge(right, on=key, how="left")\<close>. A column other than the key that both frames
  have gets the suffixes \<^verbatim>\<open>_x\<close> and \<^verbatim>\<open>_y\<close>. Each left row, in order, is joined with every
  right row of the same key, or once with missing values when there is none. A frame
  without the key column raises \<^verbatim>\<open>KeyError\<close>.
\<close>

definition rename_left :: "string \<Rightarrow> string list \<Rightarrow> string \<Rightarrow> string" where
  "rename_left key rcols c = (if c \<noteq> key \<and> c \<in> set rcols then c @ ''_x'' else c)"

definition rename_right :: "string list \<Rightarrow> string \<Rightarrow> string" where
  "rename_right lcols c = (if c \<in> set lcols then c @ ''_y'' else c)"

definition join_row :: "string \<Rightarrow> string list \<Rightarrow> string list \<Rightarrow> series \<Rightarrow> series option \<Rightarrow> series" where
  "join_row key lcols rcols l r =
     map_of (map (\<lambda>c. (rename_left key rcols c, cell_of l c)) lcols
             @ map (\<lambda>c. (rename_right lcols c, (case r of None \<Rightarrow> NaN | Some r' \<Rightarrow> cell_of r' c)))
                   (filter (\<lambda>c. c \<noteq> key) rcols))"

definition merge_left :: "string \<Rightarrow> dataframe \<Rightarrow> dataframe \<Rightarrow> py_error + dataframe" where
  "merge_left key left right =
     (if key \<notin> set (columns left) \<or> key \<notin> set (columns right) then Inl KeyError
      else Inr \<lparr>columns = map (rename_left key (columns right)) (columns left)
                           @ map (rename_right (columns left))
                               (filter (\<lambda>c. c \<noteq> key) (columns right)),
                rows = concat (map (\<lambda>l.
                         (case filter (\<lambda>r. cell_of r key = cell_of l key) (rows right) of
                            [] \<Rightarrow> [join_row key (columns left) (columns right) l None]
                          | ms \<Rightarrow> map (\<lambda>r. join_row key (columns left) (columns right) l (Some r))
                                    ms))
                         (rows left))\<rparr>)"

text \<open>The loop that adds each expected column the merged frame lacks, holding \<open>None\<close>.\<close>

definition ensure_column :: "string \<Rightarrow> dataframe \<Rightarrow> dataframe" where
  "ensure_column c df =
     (if c \<in> set (columns df) then df
      else \<lparr>columns = columns df @ [c], rows = map (\<lambda>r. r(c \<mapsto> PyNone)) (rows df)\<rparr>)"

definition expected_columns :: "string list" where
  "expected_columns =
     [''is_suspicious'', ''risk_category'', ''suspicious_detection_count'',
      ''high_risk_detected'', ''reasons'']"

text \<open>\<^verbatim>\<open>df_raw.iloc[:100]\<close>\<close>

definition head_100 :: "dataframe \<Rightarrow> dataframe" where
  "head_100 df = df\<lparr>rows := take 100 (rows df)\<rparr>"

text \<open>
  \<^verbatim>\<open>load_and_score\<close>, given the frame that \<^verbatim>\<open>pd.read_csv\<close> returned. An exception leaves
  the function (and the startup).
\<close>

definition load_and_score :: "pylib \<Rightarrow> dataframe \<Rightarrow> server \<Rightarrow> py_error + server" where
  "load_and_score lib csv st =
     (let raw = head_100 csv;
          ag0 = new_agent 95
      in case process_dataframe lib ag0 raw of
           Inl e \<Rightarrow> Inl e
         | Inr (ag, results) \<Rightarrow>
             (case merge_left ''transaction_id'' raw (results_frame results) of
                Inl e \<Rightarrow> Inl e
              | Inr merged \<Rightarrow>
                  Inr (st\<lparr>df_raw := Some raw,
                          df_scored := Some (fold ensure_column expected_columns merged),
                          agent := Some ag\<rparr>)))"

section \<open>An instance of the library parameter\<close>

text \<open>
  The theorems below hold for every \<open>lib\<close>. The concrete examples need one instance:
  \<open>example_lib\<close> reads plain decimal literals (an optional minus sign, digits, an optional
  fraction; surrounding blanks ignored) and prints numbers in decimal notation with two
  fractional digits. It stands for Python's own functions on such inputs only.
\<close>

definition digit_of :: "char \<Rightarrow> nat option" where
  "digit_of c = map_of (zip ''0123456789'' [0 ..< 10]) c"

fun digits_value :: "string \<Rightarrow> nat \<Rightarrow> nat option" where
  "digits_value [] acc = Some acc"
| "digits_value (c # cs) acc =
     (case digit_of c of None \<Rightarrow> None | Some d \<Rightarrow> digits_value cs (10 * acc + d))"

definition parse_unsigned :: "string \<Rightarrow> rat option" where
  "parse_unsigned s =
     (let ip = takeWhile (\<lambda>c. c \<noteq> CHR ''.'') s;
          rest = dropWhile (\<lambda>c. c \<noteq> CHR ''.'') s
      in if ip = [] then None
         else (case digits_value ip 0 of
                 None \<Rightarrow> None
               | Some n \<Rightarrow>
                   (case rest of
                      [] \<Rightarrow> Some (of_nat n)
                    | _ # fp \<Rightarrow>
                        (case digits_value fp 0 of
                           None \<Rightarrow> None
                         | Some m \<Rightarrow> Some (of_nat n + of_nat m / 10 ^ length fp)))))"

definition parse_decimal :: "string \<Rightarrow> rat option" where
  "parse_decimal s =
     (case strip s of
        [] \<Rightarrow> None
      | c # t \<Rightarrow> if c = CHR ''-'' then map_option uminus (parse_unsigned t)
                 else parse_unsigned (c # t))"

fun str_nat_fuel :: "nat \<Rightarrow> nat \<Rightarrow> string" where
  "str_nat_fuel 0 n = [''0123456789'' ! (n mod 10)]"
| "str_nat_fuel (Suc k) n =
     (if n < 10 then [''0123456789'' ! n]
      else str_nat_fuel k (n div 10) @ [''0123456789'' ! (n mod 10)])"

definition str_nat :: "nat \<Rightarrow> string" where
  "str_nat n = str_nat_fuel n n"

fun group3 :: "string \<Rightarrow> string" where
  "group3 (a # b # c # d # rest) = a # b # c # CHR '','' # group3 (d # rest)"
| "group3 xs = xs"

definition str_decimal :: "bool \<Rightarrow> rat \<Rightarrow> string" where
  "str_decimal grouped r =
     (let cents = nat \<lfloor>\<bar>r\<bar> * 100 + 1 / 2\<rfloor>;
          ip = str_nat (cents div 100);
          fp = [''0123456789'' ! (cents mod 100 div 10), ''0123456789'' ! (cents mod 10)]
      in (if r < 0 then ''-'' else []) @ (if grouped then rev (group3 (rev ip)) else ip)
           @ ''.'' @ fp)"

definition example_lib :: pylib where
  "example_lib =
     \<lparr>float_repr = str_decimal False,
      float_of_str = (\<lambda>s. map_option Finite (parse_decimal s)),
      to_numeric_str = parse_decimal,
      format_amount = str_decimal True\<rparr>"

section \<open>Vocabulary of the properties\<close>







text \<open>The spec's names of the risk categories, in their order of severity.\<close>

datatype category = NONE | LOW | MEDIUM | HIGH_PRIORITY

definition category_text :: "category \<Rightarrow> string" where
  "category_text c =
     (case c of NONE \<Rightarrow> [] | LOW \<Rightarrow> ''LOW RISK'' | MEDIUM \<Rightarrow> ''MEDIUM RISK''
      | HIGH_PRIORITY \<Rightarrow> ''HIGH PRIORITY RISK'')"

text \<open>The classification table of the spec.\<close>

definition table_category :: "int \<Rightarrow> category" where
  "table_category n =
     (if n = 0 \<or> n = 1 then NONE
      else if n = 2 then LOW
      else if n = 3 \<or> n = 4 then MEDIUM
      else HIGH_PRIORITY)"






text \<open>
  The transaction id corresponds to a suspicious row of the scored frame: some row has
  \<^verbatim>\<open>is_suspicious == 1\<close> and that id as the text of its \<^verbatim>\<open>transaction_id\<close>.
\<close>

definition suspicious_id :: "pylib \<Rightarrow> dataframe \<Rightarrow> string \<Rightarrow> bool" where
  "suspicious_id lib df tid =
     (''is_suspicious'' \<in> set (columns df) \<and> ''transaction_id'' \<in> set (columns df)
      \<and> (\<exists>r \<in> set (rows df). cell_eq_1 (cell_of r ''is_suspicious'')
                               \<and> py_str lib (cell_of r ''transaction_id'') = tid))"

text \<open>
  The resolution map as a dictionary: no key twice. An entry is expired at a cutoff when its
  timestamp does not parse or parses to a time before the cutoff; a map has naive
  timestamps when none of them carries a UTC offset (the service itself writes no other).
\<close>

definition dict_ok :: "(string \<times> resolution) list \<Rightarrow> bool" where
  "dict_ok al = distinct (map fst al)"

definition expired :: "int \<Rightarrow> resolution \<Rightarrow> bool" where
  "expired cutoff m =
     (case resolved_at m of IsoNaive t \<Rightarrow> t < cutoff | IsoAware t \<Rightarrow> False | NotIso s \<Rightarrow> True)"

definition has_offset :: "resolution \<Rightarrow> bool" where
  "has_offset m = (case resolved_at m of IsoAware t \<Rightarrow> True | _ \<Rightarrow> False)"

definition naive_stamps :: "(string \<times> resolution) list \<Rightarrow> bool" where
  "naive_stamps al = list_all (\<lambda>e. \<not> has_offset (snd e)) al"

text \<open>The clock at a given \<^verbatim>\<open>utcnow\<close>.\<close>

definition clock_at :: "int \<Rightarrow> clock" where
  "clock_at t = \<lparr>utcnow = t, time_time = of_int t / 1000000, utc_month = ''1970-01''\<rparr>"




text \<open>
  The transaction ids of the first 100 rows of a file, as text; and a frame that holds
  some of the rows of another, under the same columns.
\<close>

definition first_100_ids :: "pylib \<Rightarrow> dataframe \<Rightarrow> string list" where
  "first_100_ids lib csv =
     map (\<lambda>l. py_str lib (cell_of l ''transaction_id'')) (take 100 (rows csv))"

definition subframe :: "dataframe \<Rightarrow> dataframe \<Rightarrow> bool" where
  "subframe d df = (columns d = columns df \<and> set (rows d) \<subseteq> set (rows df))"

text \<open>The text of the transaction id of a returned record.\<close>

definition record_id :: "pylib \<Rightarrow> series \<Rightarrow> string" where
  "record_id lib rec = py_str lib (row_get rec ''transaction_id'' PyNone)"

section \<open>Concrete inputs\<close>

text \<open>A one-row frame whose transaction matches two suspicious indicators and no high-risk rule.\<close>

definition frame_two_indicators :: dataframe where
  "frame_two_indicators =
     \<lparr>columns = [''transaction_id'', ''customer_risk_rating'', ''sanctions_screening''],
      rows = [[''transaction_id'' \<mapsto> Str ''T1'', ''customer_risk_rating'' \<mapsto> Str ''High'',
               ''sanctions_screening'' \<mapsto> Str ''potential'']]\<rparr>"

definition result_two_indicators :: detection_result where
  "result_two_indicators =
     \<lparr>transaction_id = Str ''T1'', is_suspicious = 1, risk_category = ''LOW RISK'',
      suspicious_detection_count = 2, high_risk_detected = 0,
      reasons = ''Customer risk rating is High; Sanctions screening shows potential match''\<rparr>"

text \<open>A politically exposed customer with nothing else on record.\<close>

definition row_pep :: series where
  "row_pep = [''transaction_id'' \<mapsto> Str ''T2'', ''customer_is_pep'' \<mapsto> Bool True]"





text \<open>
  Six transactions of low-risk-profile retail customers: five of ordinary size and one,
  the fourth, of five times their mean.
\<close>

definition plain_row :: "string \<Rightarrow> rat \<Rightarrow> series" where
  "plain_row tid a =
     [''transaction_id'' \<mapsto> Str tid, ''amount'' \<mapsto> Num a,
      ''client_risk_profile'' \<mapsto> Str ''Low'', ''customer_type'' \<mapsto> Str ''retail'',
      ''customer_risk_rating'' \<mapsto> Str ''Low'', ''customer_is_pep'' \<mapsto> Bool False,
      ''edd_required'' \<mapsto> Bool False, ''edd_performed'' \<mapsto> Bool False,
      ''sow_documented'' \<mapsto> Bool True, ''suitability_assessed'' \<mapsto> Bool True,
      ''suitability_result'' \<mapsto> Str ''match'', ''cash_id_verified'' \<mapsto> Bool True,
      ''sanctions_screening'' \<mapsto> Str ''none'', ''regulator'' \<mapsto> Str ''MAS'']"


text \<open>
  The globals as the module sets them, and a served state: a scored frame of three
  transactions, of which \<^verbatim>\<open>T1\<close> and \<^verbatim>\<open>T3\<close> are suspicious.
\<close>

definition initial_server :: server where
  "initial_server =
     \<lparr>df_raw = None, df_scored = None, agent = None, resolved_alerts = [],
      reports = Map.empty\<rparr>"

definition scored_three :: dataframe where
  "scored_three =
     \<lparr>columns = [''transaction_id'', ''regulator'', ''is_suspicious'', ''risk_category''],
      rows = [[''transaction_id'' \<mapsto> Str ''T1'', ''regulator'' \<mapsto> Str ''MAS'',
               ''is_suspicious'' \<mapsto> Num 1, ''risk_category'' \<mapsto> Str ''HIGH PRIORITY RISK''],
              [''transaction_id'' \<mapsto> Str ''T2'', ''regulator'' \<mapsto> Str ''MAS'',
               ''is_suspicious'' \<mapsto> Num 0, ''risk_category'' \<mapsto> Str []],
              [''transaction_id'' \<mapsto> Str ''T3'', ''regulator'' \<mapsto> Str ''FINMA'',
               ''is_suspicious'' \<mapsto> Num 1, ''risk_category'' \<mapsto> Str ''LOW RISK'']]\<rparr>"

definition served :: server where
  "served = initial_server\<lparr>df_scored := Some scored_three\<rparr>"

text \<open>A resolution whose timestamp is not in ISO format.\<close>

definition served_unreadable :: server where
  "served_unreadable =
     served\<lparr>resolved_alerts :=
              [(''T1'', \<lparr>note_text = ''checked'', resolved_at = NotIso ''yesterday''\<rparr>)]\<rparr>"

text \<open>A resolution map in which one timestamp carries a UTC offset.\<close>

definition served_offset :: server where
  "served_offset =
     served\<lparr>resolved_alerts :=
              [(''T1'', \<lparr>note_text = ''checked'', resolved_at = IsoAware 0\<rparr>),
               (''T3'', \<lparr>note_text = [], resolved_at = NotIso ''soon''\<rparr>)]\<rparr>"




text \<open>
  A file of 101 transactions: a hundred ordinary ones under the id \<^verbatim>\<open>S1\<close> and, last, the
  politically exposed customer of \<^verbatim>\<open>T2\<close>.
\<close>

definition frame_long :: dataframe where
  "frame_long =
     \<lparr>columns = [''transaction_id'', ''amount'', ''customer_is_pep''],
      rows = replicate 100 (plain_row ''S1'' 1000) @ [row_pep]\<rparr>"

section \<open>Properties of the detection agent\<close>

subsection \<open>The evaluator returns\<close>


lemma py_float_errors: "py_float lib v = Inl e \<Longrightarrow> e = ValueError \<or> e = TypeError"
  by (cases v) (auto split: option.splits)

lemma hr_rule5_returns: "\<exists>st'. hr_rule5 lib ag row st = Inr st'"
  unfolding hr_rule5_def by (auto simp: Let_def split: sum.splits dest: py_float_errors)

lemma sd_rule2_returns: "\<exists>st'. sd_rule2 lib ag row st = Inr st'"
  unfolding sd_rule2_def by (auto simp: Let_def split: sum.splits dest: py_float_errors)

lemma check_high_risk_variables_returns:
  "\<exists>r. check_high_risk_variables lib ag row = Inr r"
proof -
  obtain st where "hr_rule5 lib ag row
      (hr_rule4 lib row (hr_rule3 lib row (hr_rule2 lib row (hr_rule1 lib row (False, []))))) = Inr st"
    using hr_rule5_returns by blast
  then show ?thesis by (simp add: check_high_risk_variables_def)
qed

lemma check_suspicious_detection_variables_returns:
  "\<exists>r. check_suspicious_detection_variables lib ag row = Inr r"
proof -
  obtain st where "sd_rule2 lib ag row (sd_rule1 lib row (0, [])) = Inr st"
    using sd_rule2_returns by blast
  then show ?thesis by (simp add: check_suspicious_detection_variables_def)
qed

lemma detect_row_returns: "\<exists>res. detect_row lib ag row = Inr res"
proof -
  obtain h hr where a: "check_high_risk_variables lib ag row = Inr (h, hr)"
    using check_high_risk_variables_returns by (metis surj_pair)
  obtain c sr where b: "check_suspicious_detection_variables lib ag row = Inr (c, sr)"
    using check_suspicious_detection_variables_returns by (metis surj_pair)
  show ?thesis by (simp add: detect_row_def a b Let_def)
qed

lemma score_rows_returns: "\<exists>rs. score_rows lib ag rws = Inr rs \<and> length rs = length rws"
proof (induction rws)
  case Nil
  then show ?case by simp
next
  case (Cons row rest)
  obtain res where r: "detect_row lib ag row = Inr res"
    using detect_row_returns by blast
  from Cons obtain rs where "score_rows lib ag rest = Inr rs" "length rs = length rest"
    by blast
  with r show ?case by simp
qed

lemma process_dataframe_returns:
  "\<exists>ag' rs. process_dataframe lib ag df = Inr (ag', rs) \<and> length rs = length (rows df)"
proof -
  obtain rs where "score_rows lib (calculate_high_amount_threshold lib ag df) (iterrows df) = Inr rs"
    "length rs = length (iterrows df)"
    using score_rows_returns by blast
  then show ?thesis by (simp add: process_dataframe_def Let_def iterrows_def)
qed

lemma score_rows_member:
  "score_rows lib ag rws = Inr rs \<Longrightarrow> res \<in> set rs
   \<Longrightarrow> \<exists>row \<in> set rws. detect_row lib ag row = Inr res"
proof (induction rws arbitrary: rs)
  case Nil
  then show ?case by simp
next
  case (Cons row rest)
  then show ?case by (auto split: sum.splits)
qed


text \<open>The suspicious count only grows along the rules.\<close>

lemma sd_count_fst: "fst (sd_count msg st) = fst st + 1"
  by (simp add: sd_count_def)

lemma sd_rule1_mono: "fst st \<le> fst (sd_rule1 lib row st)"
  by (simp add: sd_rule1_def Let_def sd_count_fst)

lemma sd_rule2_mono: "sd_rule2 lib ag row st = Inr st' \<Longrightarrow> fst st \<le> fst st'"
  by (auto simp: sd_rule2_def Let_def sd_count_fst split: if_splits sum.splits)

lemma sd_rule3_mono: "fst st \<le> fst (sd_rule3 lib row st)"
  by (simp add: sd_rule3_def Let_def sd_count_fst)

lemma sd_rule4_mono: "fst st \<le> fst (sd_rule4 lib row st)"
  by (simp add: sd_rule4_def Let_def sd_count_fst)

lemma sd_rule5_mono: "fst st \<le> fst (sd_rule5 lib row st)"
  by (simp add: sd_rule5_def Let_def sd_count_fst)

lemma suspicious_count_nonneg:
  assumes "check_suspicious_detection_variables lib ag row = Inr (c, sr)"
  shows "0 \<le> c"
proof -
  obtain st where st: "sd_rule2 lib ag row (sd_rule1 lib row (0, [])) = Inr st"
    using sd_rule2_returns by blast
  have "0 \<le> fst (sd_rule1 lib row (0, []))"
    using sd_rule1_mono[of "(0, [])" lib row] by simp
  also have "\<dots> \<le> fst st" using sd_rule2_mono[OF st] .
  also have "\<dots> \<le> fst (sd_rule3 lib row st)" by (rule sd_rule3_mono)
  also have "\<dots> \<le> fst (sd_rule4 lib row (sd_rule3 lib row st))" by (rule sd_rule4_mono)
  also have "\<dots> \<le> fst (sd_rule5 lib row (sd_rule4 lib row (sd_rule3 lib row st)))"
    by (rule sd_rule5_mono)
  finally show ?thesis
    using assms st by (simp add: check_suspicious_detection_variables_def)
qed

lemma detect_row_fields:
  assumes "detect_row lib ag row = Inr res"
  shows "\<exists>h hr c sr. check_high_risk_variables lib ag row = Inr (h, hr)
           \<and> check_suspicious_detection_variables lib ag row = Inr (c, sr)
           \<and> risk_category res = classify_risk h c
           \<and> suspicious_detection_count res = c
           \<and> high_risk_detected res = (if h then 1 else 0)
           \<and> is_suspicious res = (if classify_risk h c \<noteq> [] then 1 else 0)"
proof -
  obtain h hr where a: "check_high_risk_variables lib ag row = Inr (h, hr)"
    using check_high_risk_variables_returns by (metis surj_pair)
  obtain c sr where b: "check_suspicious_detection_variables lib ag row = Inr (c, sr)"
    using check_suspicious_detection_variables_returns by (metis surj_pair)
  define rs where "rs = (if hr @ sr \<noteq> [] then join ''; '' (hr @ sr)
                         else ''No suspicious indicators'')"
  have "detect_row lib ag row =
          Inr \<lparr>transaction_id = row_get row ''transaction_id'' (Str []),
               is_suspicious = (if classify_risk h c \<noteq> [] then 1 else 0),
               risk_category = classify_risk h c,
               suspicious_detection_count = c,
               high_risk_detected = (if h then 1 else 0),
               reasons = rs\<rparr>"
    unfolding detect_row_def a b rs_def by (simp only: sum.case prod.case Let_def)
  with assms have
    "res = \<lparr>transaction_id = row_get row ''transaction_id'' (Str []),
               is_suspicious = (if classify_risk h c \<noteq> [] then 1 else 0),
               risk_category = classify_risk h c,
               suspicious_detection_count = c,
               high_risk_detected = (if h then 1 else 0),
               reasons = rs\<rparr>"
    by (simp only: sum.inject)
  then have "risk_category res = classify_risk h c"
    "suspicious_detection_count res = c"
    "high_risk_detected res = (if h then 1 else 0)"
    "is_suspicious res = (if classify_risk h c \<noteq> [] then 1 else 0)"
    by (simp_all only: detection_result.select_convs)
  with a b show ?thesis by blast
qed

lemma classify_risk_table:
  "0 \<le> n \<Longrightarrow> classify_risk False n = category_text (table_category n)"
  by (auto simp: classify_risk_def table_category_def category_text_def)

subsection \<open>The classification table\<close>

text \<open>
  C1. For every transaction of a processed frame on which no high-risk rule fired, the
  risk category is the one the table gives for its suspicious detection count: 0 or 1 is
  NONE (the blank category), 2 is LOW, 3 or 4 is MEDIUM, 5 or more is HIGH PRIORITY;
  \<open>is_suspicious\<close> is 1 exactly when the category is not NONE, and 0 otherwise. The
  last conjunct is the table for \<open>classify_risk\<close> itself, at every count.
\<close>

theorem C1_category_by_count:
  assumes "process_dataframe lib ag df = Inr (ag', results)"
    and "res \<in> set results"
    and "high_risk_detected res = 0"
  shows "0 \<le> suspicious_detection_count res
         \<and> risk_category res = category_text (table_category (suspicious_detection_count res))
         \<and> (is_suspicious res = 1 \<longleftrightarrow> risk_category res \<noteq> category_text NONE)
         \<and> (is_suspicious res = 0 \<or> is_suspicious res = 1)
         \<and> (\<forall>n\<ge>0. classify_risk False n = category_text (table_category n))"
proof -
  from assms(1) have "score_rows lib ag' (iterrows df) = Inr results"
    by (auto simp: process_dataframe_def Let_def split: sum.splits)
  with assms(2) obtain row where "detect_row lib ag' row = Inr res"
    using score_rows_member by blast
  then obtain h hr c sr where f:
    "check_suspicious_detection_variables lib ag' row = Inr (c, sr)"
    "risk_category res = classify_risk h c"
    "suspicious_detection_count res = c"
    "high_risk_detected res = (if h then 1 else 0)"
    "is_suspicious res = (if classify_risk h c \<noteq> [] then 1 else 0)"
    using detect_row_fields by blast
  from f(4) assms(3) have h: "\<not> h" by (simp split: if_splits)
  have c: "0 \<le> c" using suspicious_count_nonneg[OF f(1)] .
  show ?thesis
    using f h c classify_risk_table by (simp add: category_text_def)
qed

lemma process_two_indicators:
  "process_dataframe example_lib (new_agent 95) frame_two_indicators
     = Inr (\<lparr>high_amount_threshold_percentile = 95, high_amount_threshold = Some 1000000\<rparr>,
            [result_two_indicators])"
  by code_simp

theorem C1_category_by_count_witness:
  "process_dataframe example_lib (new_agent 95) frame_two_indicators
     = Inr (\<lparr>high_amount_threshold_percentile = 95, high_amount_threshold = Some 1000000\<rparr>,
            [result_two_indicators])
   \<and> result_two_indicators \<in> set [result_two_indicators]
   \<and> high_risk_detected result_two_indicators = 0
   \<and> suspicious_detection_count result_two_indicators = 2
   \<and> risk_category result_two_indicators = category_text LOW
   \<and> is_suspicious result_two_indicators = 1"
proof -
  have r: "result_two_indicators \<in> set [result_two_indicators]" by simp
  have h: "high_risk_detected result_two_indicators = 0"
    by (simp add: result_two_indicators_def)
  have c: "suspicious_detection_count result_two_indicators = 2"
    by (simp add: result_two_indicators_def)
  from C1_category_by_count[OF process_two_indicators r h] c
  show ?thesis
    using process_two_indicators h
    by (simp add: table_category_def category_text_def)
qed

subsection \<open>Politically exposed customers\<close>














subsection \<open>Missing and unreadable fields\<close>
































subsection \<open>The threshold\<close>

text \<open>A check of \<open>percentile\<close> on 21 evenly spaced values: position 19 of the sorted values.\<close>

lemma percentile_example:
  "percentile [100, 200, 300, 400, 500, 600, 700, 800, 900, 1000, 1100, 1200, 1300, 1400, 1500,
               1600, 1700, 1800, 1900, 2000, 2100] 95 = Inr 2000"
  by code_simp



















subsection \<open>One outlier in a batch of six\<close>














section \<open>Properties of the alert store\<close>

subsection \<open>The purge sweep and the lookup of an alert\<close>

lemma collect_to_delete_naive:
  "naive_stamps al \<Longrightarrow>
   collect_to_delete c al = Inr (map fst (filter (\<lambda>e. expired c (snd e)) al))"
proof (induction al)
  case Nil
  then show ?case by simp
next
  case (Cons e al)
  obtain k m where e: "e = (k, m)" by (cases e)
  from Cons.prems have n: "naive_stamps al" and h: "\<not> has_offset m"
    by (simp_all add: naive_stamps_def e)
  from Cons.IH[OF n] h show ?case
    by (cases "resolved_at m") (simp_all add: e expired_def has_offset_def)
qed

lemma collect_to_delete_offset:
  "\<not> naive_stamps al \<Longrightarrow> collect_to_delete c al = Inl TypeError"
proof (induction al)
  case Nil
  then show ?case by (simp add: naive_stamps_def)
next
  case (Cons e al)
  obtain k m where e: "e = (k, m)" by (cases e)
  show ?case
  proof (cases "has_offset m")
    case True
    then show ?thesis by (cases "resolved_at m") (simp_all add: e has_offset_def)
  next
    case False
    with Cons.prems have "\<not> naive_stamps al" by (simp add: naive_stamps_def e)
    from Cons.IH[OF this] show ?thesis
      by (cases "resolved_at m") (simp_all add: e)
  qed
qed

lemma map_of_fold_delete:
  "map_of (fold AList.delete ks al) k = (if k \<in> set ks then None else map_of al k)"
  by (induction ks arbitrary: al) (simp_all add: AList.delete_conv)

lemma keys_fold_delete:
  "set (map fst (fold AList.delete ks al)) = set (map fst al) - set ks"
proof (induction ks arbitrary: al)
  case Nil
  then show ?case by simp
next
  case (Cons k ks)
  have "set (map fst (AList.delete k al)) = set (map fst al) - {k}"
    by (simp add: AList.delete_keys)
  with Cons[of "AList.delete k al"] show ?case by auto
qed

lemma distinct_fold_delete:
  "distinct (map fst al) \<Longrightarrow> distinct (map fst (fold AList.delete ks al))"
  by (induction ks arbitrary: al) (simp_all add: AList.distinct_delete)

lemma key_in_filter:
  assumes "distinct (map fst al)" and "map_of al k = Some m"
  shows "k \<in> set (map fst (filter P al)) \<longleftrightarrow> P (k, m)"
proof -
  from assms(2) have mem: "(k, m) \<in> set al" by (rule map_of_SomeD)
  have uniq: "m' = m" if "(k, m') \<in> set al" for m'
    using assms that by (simp add: map_of_is_SomeI)
  show ?thesis
  proof
    assume "k \<in> set (map fst (filter P al))"
    then obtain m' where "(k, m') \<in> set al" "P (k, m')" by auto
    with uniq show "P (k, m)" by auto
  next
    assume "P (k, m)"
    with mem show "k \<in> set (map fst (filter P al))" by force
  qed
qed

lemma purge_lookup:
  assumes "dict_ok (resolved_alerts st)" and "naive_stamps (resolved_alerts st)"
  shows "map_of (resolved_alerts (purge_old_resolved_alerts clk st)) k =
           (case map_of (resolved_alerts st) k of
              None \<Rightarrow> None
            | Some m \<Rightarrow> if expired (utcnow clk - days RETENTION_DAYS) m then None else Some m)"
proof -
  let ?c = "utcnow clk - days RETENTION_DAYS"
  let ?al = "resolved_alerts st"
  have p: "resolved_alerts (purge_old_resolved_alerts clk st)
           = fold AList.delete (map fst (filter (\<lambda>e. expired ?c (snd e)) ?al)) ?al"
    using collect_to_delete_naive[OF assms(2), of ?c]
    by (simp add: purge_old_resolved_alerts_def Let_def)
  show ?thesis
  proof (cases "map_of ?al k")
    case None
    then show ?thesis by (simp add: p map_of_fold_delete)
  next
    case (Some m)
    have "k \<in> set (map fst (filter (\<lambda>e. expired ?c (snd e)) ?al)) \<longleftrightarrow> expired ?c m"
      using key_in_filter[of ?al k m "\<lambda>e. expired ?c (snd e)"] assms(1) Some
      by (simp add: dict_ok_def)
    with Some show ?thesis by (simp add: p map_of_fold_delete)
  qed
qed

lemma purge_offset:
  assumes "\<not> naive_stamps (resolved_alerts st)"
  shows "purge_old_resolved_alerts clk st = st"
  using collect_to_delete_offset[OF assms]
  by (simp add: purge_old_resolved_alerts_def Let_def)

lemma purge_keeps_dict_ok:
  "dict_ok (resolved_alerts st) \<Longrightarrow> dict_ok (resolved_alerts (purge_old_resolved_alerts clk st))"
  by (auto simp: purge_old_resolved_alerts_def Let_def dict_ok_def distinct_fold_delete
      split: sum.splits)

lemma purge_keys_subset:
  "fst ` set (resolved_alerts (purge_old_resolved_alerts clk st))
     \<subseteq> fst ` set (resolved_alerts st)"
proof (cases "collect_to_delete (utcnow clk - days RETENTION_DAYS) (resolved_alerts st)")
  case (Inl e)
  then show ?thesis by (simp add: purge_old_resolved_alerts_def Let_def)
next
  case (Inr ds)
  then have "resolved_alerts (purge_old_resolved_alerts clk st)
             = fold AList.delete ds (resolved_alerts st)"
    by (simp add: purge_old_resolved_alerts_def Let_def)
  then show ?thesis using keys_fold_delete[of ds "resolved_alerts st"] by auto
qed

lemma purge_frame:
  "df_scored (purge_old_resolved_alerts clk st) = df_scored st"
  "reports (purge_old_resolved_alerts clk st) = reports st"
  by (simp_all add: purge_old_resolved_alerts_def Let_def split: sum.splits)

lemma alert_exists_iff:
  "alert_exists lib df tid \<longleftrightarrow> suspicious_id lib df tid"
  by (auto simp: alert_exists_def flagged_rows_def where_eq_1_def column_def select_rows_def
      suspicious_id_def)

subsection \<open>Resolving an alert\<close>

lemma resolve_alert_found:
  assumes "df_scored st = Some df" and "suspicious_id lib df tid"
  shows "resolve_alert lib clk tid n st =
           (Resolved tid,
            st\<lparr>resolved_alerts :=
                 AList.update tid \<lparr>note_text = note_or_empty n, resolved_at = IsoNaive (utcnow clk)\<rparr>
                   (resolved_alerts st)\<rparr>)"
  using assms by (simp add: resolve_alert_def alert_exists_iff)

lemma resolve_alert_not_found:
  assumes "df_scored st = Some df" and "\<not> suspicious_id lib df tid"
  shows "resolve_alert lib clk tid n st = (NotFound tid, st)"
  using assms by (simp add: resolve_alert_def alert_exists_iff)

lemma update_existing_keys:
  "k \<in> set (map fst al) \<Longrightarrow> map fst (AList.update k v al) = map fst al"
  by (simp add: AList.update_keys)

text \<open>
  C5. With a scored batch loaded, \<^verbatim>\<open>resolve\<close> answers NotFound exactly when the id is not
  the id of a row of that batch with \<^verbatim>\<open>is_suspicious = 1\<close>, and then changes nothing.
  When the id is such a row's, the call succeeds and records the note and the time under
  the id, leaving the other entries alone; resolving the same id again succeeds again,
  replaces note and time by the new ones, and adds no entry: the keys of the map are the
  same before and after, and stay without repetition.
\<close>

theorem C5_resolve:
  assumes loaded: "df_scored st = Some df"
  shows "let st1 = snd (resolve_alert lib clk tid n st);
             st2 = snd (resolve_alert lib clk' tid n' st1)
         in (fst (resolve_alert lib clk tid n st) = NotFound tid \<longleftrightarrow> \<not> suspicious_id lib df tid)
            \<and> (\<not> suspicious_id lib df tid \<longrightarrow> st1 = st)
            \<and> (suspicious_id lib df tid \<longrightarrow>
                  fst (resolve_alert lib clk tid n st) = Resolved tid
                  \<and> map_of (resolved_alerts st1) tid
                      = Some \<lparr>note_text = note_or_empty n, resolved_at = IsoNaive (utcnow clk)\<rparr>
                  \<and> (\<forall>k. k \<noteq> tid \<longrightarrow> map_of (resolved_alerts st1) k = map_of (resolved_alerts st) k)
                  \<and> fst (resolve_alert lib clk' tid n' st1) = Resolved tid
                  \<and> map_of (resolved_alerts st2) tid
                      = Some \<lparr>note_text = note_or_empty n', resolved_at = IsoNaive (utcnow clk')\<rparr>
                  \<and> map fst (resolved_alerts st2) = map fst (resolved_alerts st1)
                  \<and> (dict_ok (resolved_alerts st) \<longrightarrow> dict_ok (resolved_alerts st2)))"
proof (cases "suspicious_id lib df tid")
  case False
  with loaded show ?thesis by (simp add: resolve_alert_not_found Let_def)
next
  case True
  let ?e1 = "\<lparr>note_text = note_or_empty n, resolved_at = IsoNaive (utcnow clk)\<rparr>"
  let ?e2 = "\<lparr>note_text = note_or_empty n', resolved_at = IsoNaive (utcnow clk')\<rparr>"
  let ?st1 = "st\<lparr>resolved_alerts := AList.update tid ?e1 (resolved_alerts st)\<rparr>"
  let ?st2 = "?st1\<lparr>resolved_alerts := AList.update tid ?e2 (resolved_alerts ?st1)\<rparr>"
  have r1: "resolve_alert lib clk tid n st = (Resolved tid, ?st1)"
    using loaded True by (rule resolve_alert_found)
  have l1: "df_scored ?st1 = Some df" using loaded by simp
  have r2: "resolve_alert lib clk' tid n' ?st1 = (Resolved tid, ?st2)"
    using l1 True by (rule resolve_alert_found)
  have a: "map_of (resolved_alerts ?st1) tid = Some ?e1" by (simp add: AList.update_conv')
  have b: "\<forall>k. k \<noteq> tid \<longrightarrow> map_of (resolved_alerts ?st1) k = map_of (resolved_alerts st) k"
    by (simp add: AList.update_conv')
  have c: "map_of (resolved_alerts ?st2) tid = Some ?e2" by (simp add: AList.update_conv')
  have "tid \<in> set (map fst (resolved_alerts ?st1))"
    by (simp add: AList.update_keys)
  then have d: "map fst (resolved_alerts ?st2) = map fst (resolved_alerts ?st1)"
    using update_existing_keys[of tid "resolved_alerts ?st1" ?e2] by simp
  have e: "dict_ok (resolved_alerts st) \<longrightarrow> dict_ok (resolved_alerts ?st2)"
    by (simp add: dict_ok_def AList.distinct_update)
  show ?thesis
    unfolding Let_def r1 r2 fst_conv snd_conv
    using True a b c d e by blast
qed


lemma served_facts:
  "df_scored served = Some scored_three"
  "dict_ok (resolved_alerts served)"
  "naive_stamps (resolved_alerts served)"
  by (simp_all add: served_def initial_server_def dict_ok_def naive_stamps_def)

lemma scored_three_ids:
  "suspicious_id example_lib scored_three ''T1''"
  "\<not> suspicious_id example_lib scored_three ''T2''"
  "\<not> suspicious_id example_lib scored_three ''T9''"
  by code_simp+

theorem C5_resolve_witness:
  "df_scored served = Some scored_three
   \<and> suspicious_id example_lib scored_three ''T1''
   \<and> \<not> suspicious_id example_lib scored_three ''T2''
   \<and> dict_ok (resolved_alerts served)
   \<and> fst (resolve_alert example_lib (clock_at 1000) ''T2'' None served) = NotFound ''T2''
   \<and> snd (resolve_alert example_lib (clock_at 1000) ''T2'' None served) = served
   \<and> fst (resolve_alert example_lib (clock_at 1000) ''T1'' (Some ''cleared'') served) = Resolved ''T1''
   \<and> map_of (resolved_alerts
               (snd (resolve_alert example_lib (clock_at 1000) ''T1'' (Some ''cleared'') served)))
         ''T1''
       = Some \<lparr>note_text = ''cleared'', resolved_at = IsoNaive 1000\<rparr>
   \<and> map_of (resolved_alerts
               (snd (resolve_alert example_lib (clock_at 2000) ''T1'' None
                  (snd (resolve_alert example_lib (clock_at 1000) ''T1'' (Some ''cleared'') served)))))
         ''T1''
       = Some \<lparr>note_text = [], resolved_at = IsoNaive 2000\<rparr>
   \<and> dict_ok (resolved_alerts
        (snd (resolve_alert example_lib (clock_at 2000) ''T1'' None
           (snd (resolve_alert example_lib (clock_at 1000) ''T1'' (Some ''cleared'') served)))))"
  using C5_resolve[where st = served and df = scored_three and lib = example_lib
          and clk = "clock_at 1000" and tid = "''T1''" and n = "Some ''cleared''"
          and clk' = "clock_at 2000" and n' = None]
        C5_resolve[where st = served and df = scored_three and lib = example_lib
          and clk = "clock_at 1000" and tid = "''T2''" and n = None
          and clk' = "clock_at 2000" and n' = None]
        served_facts scored_three_ids
  by (simp add: Let_def note_or_empty_def clock_at_def)

subsection \<open>Retention of resolved alerts\<close>

lemma update_set_subset:
  "set (AList.update k v al) \<subseteq> insert (k, v) (set al)"
  by (induction al) auto

lemma purge_after_resolve:
  assumes loaded: "df_scored st = Some df" and sus: "suspicious_id lib df tid"
    and ok: "dict_ok (resolved_alerts st)" and nv: "naive_stamps (resolved_alerts st)"
  shows "map_of (resolved_alerts
                   (purge_old_resolved_alerts c (snd (resolve_alert lib clk tid n st)))) tid
         = (if utcnow clk < utcnow c - days RETENTION_DAYS then None
            else Some \<lparr>note_text = note_or_empty n, resolved_at = IsoNaive (utcnow clk)\<rparr>)"
proof -
  let ?e = "\<lparr>note_text = note_or_empty n, resolved_at = IsoNaive (utcnow clk)\<rparr>"
  let ?st1 = "st\<lparr>resolved_alerts := AList.update tid ?e (resolved_alerts st)\<rparr>"
  have r: "snd (resolve_alert lib clk tid n st) = ?st1"
    using resolve_alert_found[OF loaded sus] by simp
  have ok1: "dict_ok (resolved_alerts ?st1)"
    using ok by (simp add: dict_ok_def AList.distinct_update)
  have "set (AList.update tid ?e (resolved_alerts st))
          \<subseteq> insert (tid, ?e) (set (resolved_alerts st))"
    by (rule update_set_subset)
  then have nv1: "naive_stamps (resolved_alerts ?st1)"
    using nv by (auto simp: naive_stamps_def list_all_iff has_offset_def)
  have lk: "map_of (resolved_alerts ?st1) tid = Some ?e" by (simp add: AList.update_conv')
  show ?thesis
    unfolding r using purge_lookup[OF ok1 nv1, of c tid] lk
    by (simp add: expired_def)
qed


lemma list_resolved_keys:
  "fst ` set (fst (list_resolved_alerts c st)) \<subseteq> fst ` set (resolved_alerts st)"
  using purge_keys_subset[of c st] by (simp add: list_resolved_alerts_def Let_def)

text \<open>
  C6. Transaction \<open>tid\<close>, a suspicious row of the loaded batch, is resolved at time \<open>T\<close>
  (the map being a dictionary whose timestamps the service wrote). A purge sweep at
  \<open>T\<close> plus 29 days leaves the entry in the map, with its note and time. A sweep at \<open>T\<close>
  plus 31 days removes it; the listing of resolved alerts at that time, which purges first,
  does not include it, and no later listing does. In general the entry survives every
  sweep up to \<open>T\<close> plus the 30 days of retention and no sweep after.
\<close>

theorem C6_retention:
  assumes loaded: "df_scored st = Some df" and sus: "suspicious_id lib df tid"
    and ok: "dict_ok (resolved_alerts st)" and nv: "naive_stamps (resolved_alerts st)"
    and at: "utcnow clk = T"
  shows "let st1 = snd (resolve_alert lib clk tid n st);
             entry = \<lparr>note_text = note_or_empty n, resolved_at = IsoNaive T\<rparr>
         in (\<forall>c. utcnow c = T + days 29 \<longrightarrow>
                 map_of (resolved_alerts (purge_old_resolved_alerts c st1)) tid = Some entry)
            \<and> (\<forall>c. utcnow c = T + days 31 \<longrightarrow>
                 map_of (resolved_alerts (purge_old_resolved_alerts c st1)) tid = None
                 \<and> tid \<notin> fst ` set (fst (list_resolved_alerts c st1))
                 \<and> (\<forall>c'. tid \<notin> fst ` set (fst (list_resolved_alerts c'
                                                  (purge_old_resolved_alerts c st1)))))
            \<and> (\<forall>c. utcnow c \<le> T + days RETENTION_DAYS \<longrightarrow>
                 map_of (resolved_alerts (purge_old_resolved_alerts c st1)) tid = Some entry)
            \<and> (\<forall>c. T + days RETENTION_DAYS < utcnow c \<longrightarrow>
                 map_of (resolved_alerts (purge_old_resolved_alerts c st1)) tid = None)"
proof -
  let ?st1 = "snd (resolve_alert lib clk tid n st)"
  let ?entry = "\<lparr>note_text = note_or_empty n, resolved_at = IsoNaive T\<rparr>"
  have p: "map_of (resolved_alerts (purge_old_resolved_alerts c ?st1)) tid
           = (if T < utcnow c - days RETENTION_DAYS then None else Some ?entry)" for c
    using purge_after_resolve[OF loaded sus ok nv, of c clk n] at by simp
  have keep: "map_of (resolved_alerts (purge_old_resolved_alerts c ?st1)) tid = Some ?entry"
    if "utcnow c \<le> T + days RETENTION_DAYS" for c
    using that by (simp add: p)
  have drop: "map_of (resolved_alerts (purge_old_resolved_alerts c ?st1)) tid = None"
    if "T + days RETENTION_DAYS < utcnow c" for c
    using that by (simp add: p)
  have d29: "T + days 29 \<le> T + days RETENTION_DAYS"
    by (simp add: days_def RETENTION_DAYS_def)
  have d31: "T + days RETENTION_DAYS < T + days 31"
    by (simp add: days_def RETENTION_DAYS_def)
  have a: "map_of (resolved_alerts (purge_old_resolved_alerts c ?st1)) tid = Some ?entry"
    if "utcnow c = T + days 29" for c
    using keep[of c] that d29 by simp
  have b: "map_of (resolved_alerts (purge_old_resolved_alerts c ?st1)) tid = None"
    if "utcnow c = T + days 31" for c
    using drop[of c] that d31 by simp
  have b1: "tid \<notin> fst ` set (fst (list_resolved_alerts c ?st1))"
    if "utcnow c = T + days 31" for c
    using b[OF that] by (simp add: list_resolved_alerts_def Let_def map_of_eq_None_iff)
  have b2: "tid \<notin> fst ` set (fst (list_resolved_alerts c' (purge_old_resolved_alerts c ?st1)))"
    if "utcnow c = T + days 31" for c c'
  proof -
    from b[OF that] have "tid \<notin> fst ` set (resolved_alerts (purge_old_resolved_alerts c ?st1))"
      by (simp add: map_of_eq_None_iff)
    with list_resolved_keys[of c' "purge_old_resolved_alerts c ?st1"] show ?thesis by blast
  qed
  show ?thesis
    unfolding Let_def using a b b1 b2 keep drop by blast
qed


theorem C6_retention_witness:
  "df_scored served = Some scored_three
   \<and> suspicious_id example_lib scored_three ''T1''
   \<and> dict_ok (resolved_alerts served) \<and> naive_stamps (resolved_alerts served)
   \<and> utcnow (clock_at 0) = 0
   \<and> utcnow (clock_at (days 29)) = 0 + days 29
   \<and> utcnow (clock_at (days 31)) = 0 + days 31
   \<and> map_of (resolved_alerts (purge_old_resolved_alerts (clock_at (days 29))
         (snd (resolve_alert example_lib (clock_at 0) ''T1'' (Some ''cleared'') served)))) ''T1''
       = Some \<lparr>note_text = ''cleared'', resolved_at = IsoNaive 0\<rparr>
   \<and> map_of (resolved_alerts (purge_old_resolved_alerts (clock_at (days 31))
         (snd (resolve_alert example_lib (clock_at 0) ''T1'' (Some ''cleared'') served)))) ''T1''
       = None
   \<and> ''T1'' \<notin> fst ` set (fst (list_resolved_alerts (clock_at (days 31))
         (snd (resolve_alert example_lib (clock_at 0) ''T1'' (Some ''cleared'') served))))"
proof -
  have u: "utcnow (clock_at 0) = 0" "utcnow (clock_at (days 29)) = 0 + days 29"
    "utcnow (clock_at (days 31)) = 0 + days 31"
    by (simp_all add: clock_at_def)
  from C6_retention[OF served_facts(1) scored_three_ids(1) served_facts(2) served_facts(3) u(1),
      of "Some ''cleared''"]
  show ?thesis
    using u served_facts scored_three_ids(1) by (simp add: Let_def note_or_empty_def)
qed

subsection \<open>Timestamps the sweep cannot use\<close>

text \<open>
  C7 (amended). A sweep whose computation raises deletes nothing: a stored timestamp with a
  UTC offset makes the comparison with the cutoff raise, and the state after the sweep is
  the state before. A timestamp that does not parse is no such failure. In a sweep that
  completes, an entry is kept exactly when its timestamp parses and is not before the
  cutoff, and it is removed exactly when the timestamp does not parse or is before the
  cutoff; no entry is added.
\<close>

theorem C7_purge_failures:
  "(\<not> naive_stamps (resolved_alerts st) \<longrightarrow> purge_old_resolved_alerts clk st = st)
   \<and> (dict_ok (resolved_alerts st) \<and> naive_stamps (resolved_alerts st)
        \<and> map_of (resolved_alerts st) k = Some m \<longrightarrow>
        (map_of (resolved_alerts (purge_old_resolved_alerts clk st)) k = Some m
           \<longleftrightarrow> (\<exists>t. resolved_at m = IsoNaive t \<and> utcnow clk - days RETENTION_DAYS \<le> t))
        \<and> (map_of (resolved_alerts (purge_old_resolved_alerts clk st)) k = None
           \<longleftrightarrow> (\<exists>s. resolved_at m = NotIso s)
               \<or> (\<exists>t. resolved_at m = IsoNaive t \<and> t < utcnow clk - days RETENTION_DAYS)))
   \<and> (map_of (resolved_alerts st) k = None
        \<longrightarrow> map_of (resolved_alerts (purge_old_resolved_alerts clk st)) k = None)"
proof (intro conjI impI)
  show "purge_old_resolved_alerts clk st = st" if "\<not> naive_stamps (resolved_alerts st)"
    using that by (rule purge_offset)
next
  assume h: "dict_ok (resolved_alerts st) \<and> naive_stamps (resolved_alerts st)
             \<and> map_of (resolved_alerts st) k = Some m"
  then have m: "(k, m) \<in> set (resolved_alerts st)" by (simp add: map_of_SomeD)
  with h have no: "\<not> has_offset m" by (auto simp: naive_stamps_def list_all_iff)
  have p: "map_of (resolved_alerts (purge_old_resolved_alerts clk st)) k
           = (if expired (utcnow clk - days RETENTION_DAYS) m then None else Some m)"
    using purge_lookup[of st clk k] h by simp
  show "map_of (resolved_alerts (purge_old_resolved_alerts clk st)) k = Some m
          \<longleftrightarrow> (\<exists>t. resolved_at m = IsoNaive t \<and> utcnow clk - days RETENTION_DAYS \<le> t)"
    using no by (cases "resolved_at m") (auto simp: p expired_def has_offset_def)
  show "map_of (resolved_alerts (purge_old_resolved_alerts clk st)) k = None
          \<longleftrightarrow> (\<exists>s. resolved_at m = NotIso s)
              \<or> (\<exists>t. resolved_at m = IsoNaive t \<and> t < utcnow clk - days RETENTION_DAYS)"
    using no by (cases "resolved_at m") (auto simp: p expired_def has_offset_def)
next
  assume "map_of (resolved_alerts st) k = None"
  then have "k \<notin> fst ` set (resolved_alerts st)" by (simp add: map_of_eq_None_iff)
  with purge_keys_subset[of clk st]
  have "k \<notin> fst ` set (resolved_alerts (purge_old_resolved_alerts clk st))" by blast
  then show "map_of (resolved_alerts (purge_old_resolved_alerts clk st)) k = None"
    by (simp add: map_of_eq_None_iff)
qed

theorem C7_unreadable_timestamp_counterexample:
  "map_of (resolved_alerts served_unreadable) ''T1''
     = Some \<lparr>note_text = ''checked'', resolved_at = NotIso ''yesterday''\<rparr>
   \<and> fromisoformat (NotIso ''yesterday'') = Inl ValueError
   \<and> resolved_alerts (purge_old_resolved_alerts (clock_at 0) served_unreadable) = []"
  by (simp add: served_unreadable_def served_def initial_server_def
      purge_old_resolved_alerts_def Let_def clock_at_def)


lemma served_offset_facts:
  "\<not> naive_stamps (resolved_alerts served_offset)"
  "dict_ok (resolved_alerts served_unreadable)"
  "naive_stamps (resolved_alerts served_unreadable)"
  "map_of (resolved_alerts served_unreadable) ''T1''
     = Some \<lparr>note_text = ''checked'', resolved_at = NotIso ''yesterday''\<rparr>"
  "map_of (resolved_alerts served_unreadable) ''T9'' = None"
  by (simp_all add: served_offset_def served_unreadable_def served_def initial_server_def
      naive_stamps_def dict_ok_def has_offset_def)

theorem C7_purge_failures_witness:
  "\<not> naive_stamps (resolved_alerts served_offset)
   \<and> purge_old_resolved_alerts (clock_at (days 400)) served_offset = served_offset
   \<and> dict_ok (resolved_alerts served_unreadable)
   \<and> naive_stamps (resolved_alerts served_unreadable)
   \<and> map_of (resolved_alerts served_unreadable) ''T1''
       = Some \<lparr>note_text = ''checked'', resolved_at = NotIso ''yesterday''\<rparr>
   \<and> map_of (resolved_alerts (purge_old_resolved_alerts (clock_at 0) served_unreadable)) ''T1''
       = None
   \<and> map_of (resolved_alerts served_unreadable) ''T9'' = None
   \<and> map_of (resolved_alerts (purge_old_resolved_alerts (clock_at 0) served_unreadable)) ''T9''
       = None"
  using C7_purge_failures[of served_offset "clock_at (days 400)" "''T1''"
          "\<lparr>note_text = ''checked'', resolved_at = IsoAware 0\<rparr>"]
        C7_purge_failures[of served_unreadable "clock_at 0" "''T1''"
          "\<lparr>note_text = ''checked'', resolved_at = NotIso ''yesterday''\<rparr>"]
        C7_purge_failures[of served_unreadable "clock_at 0" "''T9''"
          "\<lparr>note_text = ''checked'', resolved_at = NotIso ''yesterday''\<rparr>"]
        served_offset_facts
  by simp

subsection \<open>Monthly report generation\<close>














subsection \<open>The first hundred rows\<close>

lemma map_of_renamed:
  assumes "key \<in> set cs" and "\<forall>c \<in> set cs. f c = key \<longrightarrow> c = key" and "f key = key"
  shows "map_of (map (\<lambda>c. (f c, g c)) cs @ rest) key = Some (g key)"
  using assms
proof (induction cs)
  case Nil
  then show ?case by simp
next
  case (Cons c cs)
  show ?case
  proof (cases "f c = key")
    case True
    with Cons.prems have "c = key" by simp
    with True show ?thesis by simp
  next
    case False
    with Cons.prems have "c \<noteq> key" by auto
    with Cons.prems have "key \<in> set cs" by auto
    with Cons False show ?thesis by simp
  qed
qed

lemma rename_left_key:
  assumes "rename_left ''transaction_id'' rcols c = ''transaction_id''"
  shows "c = ''transaction_id''"
proof (rule ccontr)
  assume n: "c \<noteq> ''transaction_id''"
  with assms have "c @ ''_x'' = ''transaction_id''"
    by (simp add: rename_left_def split: if_splits)
  then have "last (c @ ''_x'') = last ''transaction_id''" by simp
  then show False by simp
qed

lemma join_row_key:
  assumes "''transaction_id'' \<in> set lcols"
  shows "cell_of (join_row ''transaction_id'' lcols rcols l r) ''transaction_id''
         = cell_of l ''transaction_id''"
proof -
  have "\<forall>c \<in> set lcols. rename_left ''transaction_id'' rcols c = ''transaction_id''
          \<longrightarrow> c = ''transaction_id''"
    using rename_left_key by blast
  moreover have "rename_left ''transaction_id'' rcols ''transaction_id'' = ''transaction_id''"
    by (simp add: rename_left_def)
  ultimately have "map_of (map (\<lambda>c. (rename_left ''transaction_id'' rcols c, cell_of l c)) lcols
                     @ map (\<lambda>c. (rename_right lcols c,
                                   (case r of None \<Rightarrow> NaN | Some r' \<Rightarrow> cell_of r' c)))
                         (filter (\<lambda>c. c \<noteq> ''transaction_id'') rcols)) ''transaction_id''
                   = Some (cell_of l ''transaction_id'')"
    using assms by (intro map_of_renamed) auto
  then show ?thesis by (simp add: join_row_def cell_of_def)
qed

lemma merge_left_rows:
  assumes "merge_left ''transaction_id'' left right = Inr merged" and "r \<in> set (rows merged)"
  shows "\<exists>l \<in> set (rows left). cell_of r ''transaction_id'' = cell_of l ''transaction_id''"
proof -
  from assms(1) have k: "''transaction_id'' \<in> set (columns left)"
    by (simp add: merge_left_def split: if_splits)
  from assms obtain l where l: "l \<in> set (rows left)"
    and r: "r \<in> set (case filter (\<lambda>r. cell_of r ''transaction_id'' = cell_of l ''transaction_id'')
                            (rows right) of
                       [] \<Rightarrow> [join_row ''transaction_id'' (columns left) (columns right) l None]
                     | ms \<Rightarrow> map (\<lambda>r. join_row ''transaction_id'' (columns left) (columns right) l
                                        (Some r)) ms)"
    by (auto simp: merge_left_def split: if_splits)
  from r obtain ro where "r = join_row ''transaction_id'' (columns left) (columns right) l ro"
    by (auto split: list.splits)
  with l join_row_key[OF k] show ?thesis by auto
qed

lemma merge_left_columns:
  assumes "merge_left ''transaction_id'' left right = Inr merged"
  shows "''transaction_id'' \<in> set (columns merged)"
proof -
  from assms have k: "''transaction_id'' \<in> set (columns left)"
    and m: "columns merged = map (rename_left ''transaction_id'' (columns right)) (columns left)
              @ map (rename_right (columns left))
                  (filter (\<lambda>c. c \<noteq> ''transaction_id'') (columns right))"
    by (auto simp: merge_left_def split: if_splits)
  have "rename_left ''transaction_id'' (columns right) ''transaction_id'' = ''transaction_id''"
    by (simp add: rename_left_def)
  with k have "''transaction_id'' \<in> rename_left ''transaction_id'' (columns right) ` set (columns left)"
    by (metis imageI)
  with m show ?thesis by simp
qed

lemma ensure_column_keeps:
  assumes "''transaction_id'' \<in> set (columns df)"
  shows "''transaction_id'' \<in> set (columns (ensure_column c df))"
    and "\<forall>r \<in> set (rows (ensure_column c df)).
           \<exists>r0 \<in> set (rows df). cell_of r ''transaction_id'' = cell_of r0 ''transaction_id''"
proof -
  show "''transaction_id'' \<in> set (columns (ensure_column c df))"
    using assms by (simp add: ensure_column_def)
  show "\<forall>r \<in> set (rows (ensure_column c df)).
           \<exists>r0 \<in> set (rows df). cell_of r ''transaction_id'' = cell_of r0 ''transaction_id''"
  proof (cases "c \<in> set (columns df)")
    case True
    then show ?thesis by (auto simp: ensure_column_def)
  next
    case False
    with assms have "c \<noteq> ''transaction_id''" by auto
    with False show ?thesis by (auto simp: ensure_column_def cell_of_def)
  qed
qed

lemma fold_ensure_column_keeps:
  assumes "''transaction_id'' \<in> set (columns df)"
  shows "''transaction_id'' \<in> set (columns (fold ensure_column cs df))
         \<and> (\<forall>r \<in> set (rows (fold ensure_column cs df)).
               \<exists>r0 \<in> set (rows df). cell_of r ''transaction_id'' = cell_of r0 ''transaction_id'')"
  using assms
proof (induction cs arbitrary: df)
  case Nil
  then show ?case by auto
next
  case (Cons c cs)
  from ensure_column_keeps[OF Cons.prems, of c]
  have k: "''transaction_id'' \<in> set (columns (ensure_column c df))"
    and r: "\<forall>r \<in> set (rows (ensure_column c df)).
             \<exists>r0 \<in> set (rows df). cell_of r ''transaction_id'' = cell_of r0 ''transaction_id''"
    by blast+
  from Cons.IH[OF k] r show ?case by (simp, metis)
qed


lemma load_and_score_returns:
  assumes tcol: "''transaction_id'' \<in> set (columns csv)" and ne: "rows csv \<noteq> []"
  shows "\<exists>st' df. load_and_score lib csv st = Inr st' \<and> df_scored st' = Some df
           \<and> ''transaction_id'' \<in> set (columns df)
           \<and> (\<forall>r \<in> set (rows df). \<exists>l \<in> set (take 100 (rows csv)).
                  cell_of r ''transaction_id'' = cell_of l ''transaction_id'')
           \<and> resolved_alerts st' = resolved_alerts st \<and> reports st' = reports st"
proof -
  let ?raw = "head_100 csv"
  obtain ag results where p: "process_dataframe lib (new_agent 95) ?raw = Inr (ag, results)"
    and len: "length results = length (rows ?raw)"
    using process_dataframe_returns by blast
  have "rows ?raw \<noteq> []" using ne by (simp add: head_100_def)
  with len have rne: "results \<noteq> []" by auto
  have rc: "''transaction_id'' \<in> set (columns (results_frame results))"
    using rne by (simp add: results_frame_def result_columns_def)
  have lc: "''transaction_id'' \<in> set (columns ?raw)" using tcol by (simp add: head_100_def)
  obtain merged where m: "merge_left ''transaction_id'' ?raw (results_frame results) = Inr merged"
    using rc lc by (simp add: merge_left_def)
  let ?df = "fold ensure_column expected_columns merged"
  have mc: "''transaction_id'' \<in> set (columns merged)" using m by (rule merge_left_columns)
  from fold_ensure_column_keeps[OF mc, of expected_columns]
  have k: "''transaction_id'' \<in> set (columns ?df)"
    and r: "\<forall>r \<in> set (rows ?df). \<exists>r0 \<in> set (rows merged).
              cell_of r ''transaction_id'' = cell_of r0 ''transaction_id''"
    by blast+
  have rows: "\<forall>r \<in> set (rows ?df). \<exists>l \<in> set (take 100 (rows csv)).
                cell_of r ''transaction_id'' = cell_of l ''transaction_id''"
  proof
    fix x assume "x \<in> set (rows ?df)"
    with r obtain r0 where r0: "r0 \<in> set (rows merged)"
      "cell_of x ''transaction_id'' = cell_of r0 ''transaction_id''" by blast
    from merge_left_rows[OF m r0(1)] obtain l where "l \<in> set (rows ?raw)"
      "cell_of r0 ''transaction_id'' = cell_of l ''transaction_id''" by blast
    with r0(2) show "\<exists>l \<in> set (take 100 (rows csv)).
                       cell_of x ''transaction_id'' = cell_of l ''transaction_id''"
      by (auto simp: head_100_def)
  qed
  have "load_and_score lib csv st
        = Inr (st\<lparr>df_raw := Some ?raw, df_scored := Some ?df, agent := Some ag\<rparr>)"
    using p m by (simp add: load_and_score_def Let_def)
  with k rows show ?thesis by simp
qed

lemma load_and_score_first_100:
  assumes "columns csv2 = columns csv" and "take 100 (rows csv2) = take 100 (rows csv)"
  shows "load_and_score lib csv2 st = load_and_score lib csv st"
proof -
  have "head_100 csv2 = head_100 csv" using assms by (simp add: head_100_def)
  then show ?thesis by (simp add: load_and_score_def)
qed

lemma alert_exists_row:
  assumes "alert_exists lib df tid"
  shows "\<exists>r \<in> set (rows df). py_str lib (cell_of r ''transaction_id'') = tid"
  using assms by (auto simp: alert_exists_iff suspicious_id_def)

lemma subframe_refl: "subframe d d"
  by (simp add: subframe_def)

lemma subframe_trans: "subframe a b \<Longrightarrow> subframe b c \<Longrightarrow> subframe a c"
  by (auto simp: subframe_def)

lemma where_eq_1_subframe: "where_eq_1 c df = Inr d \<Longrightarrow> subframe d df"
  by (auto simp: where_eq_1_def subframe_def select_rows_def split: if_splits)

lemma where_str_subframe: "where_str lib c p df = Inr d \<Longrightarrow> subframe d df"
  by (auto simp: where_str_def subframe_def select_rows_def split: if_splits)

lemma filter_if_subframe:
  assumes "filter_if cond (where_str lib c p) d = Inr b"
  shows "\<exists>a. d = Inr a \<and> subframe b a"
proof (cases d)
  case (Inl e)
  with assms show ?thesis by (simp add: filter_if_def)
next
  case (Inr a)
  with assms have "(cond \<and> where_str lib c p a = Inr b) \<or> (\<not> cond \<and> b = a)"
    by (auto simp: filter_if_def split: if_splits)
  then have "subframe b a" using where_str_subframe subframe_refl by blast
  with Inr show ?thesis by simp
qed

lemma flag_record_id:
  assumes "''transaction_id'' \<in> set present_cols"
  shows "record_id lib (flag_record lib present_cols ra r) = py_str lib (cell_of r ''transaction_id'')"
  using assms by (simp add: record_id_def flag_record_def Let_def row_get_def as_series_def)

lemma get_flags_frame:
  assumes loaded: "df_scored st = Some scored"
    and res: "fst (get_flags lib clk q st) = Flags recs"
  shows "\<exists>df ra. subframe df scored
           \<and> recs = map (flag_record lib (filter (\<lambda>c. c \<in> set (columns df)) flag_columns) ra)
                      (take 500 (rows df))"
proof -
  define st' where "st' = purge_old_resolved_alerts clk st"
  define keys where "keys = map fst (resolved_alerts st')"
  define ids where "ids = filter (\<lambda>x. x \<noteq> []) (map strip (split_comma (text_of (q_customer_ids q))))"
  define d0 where "d0 = flagged_rows scored"
  define d1 where "d1 = filter_if (given (q_transaction_id q))
                      (where_str lib ''transaction_id'' (\<lambda>s. s = text_of (q_transaction_id q))) d0"
  define d2 where "d2 = filter_if (given (q_customer_id q))
                      (where_str lib ''customer_id'' (\<lambda>s. s = text_of (q_customer_id q))) d1"
  define d3 where "d3 = filter_if (given (q_customer_ids q) \<and> length ids > 0)
                      (where_str lib ''customer_id'' (\<lambda>s. s \<in> set ids)) d2"
  define d4 where "d4 = filter_if (given (q_regulator q))
                      (where_str lib ''regulator''
                         (\<lambda>s. lower s = lower (text_of (q_regulator q)))) d3"
  define d5 where "d5 = filter_if (given (q_booking_jurisdiction q))
                      (where_str lib ''booking_jurisdiction''
                         (\<lambda>s. lower s = lower (text_of (q_booking_jurisdiction q)))) d4"
  define d6 where "d6 = filter_if (q_resolved q \<noteq> None)
                      (where_str lib ''transaction_id''
                         (\<lambda>s. if q_resolved q = Some True then s \<in> set keys else s \<notin> set keys)) d5"
  have g: "get_flags lib clk q st =
             (case d6 of
                Inl e \<Rightarrow> (FlagsFailed e, st')
              | Inr df \<Rightarrow>
                  (Flags (map (flag_record lib (filter (\<lambda>c. c \<in> set (columns df)) flag_columns)
                                 (resolved_alerts st'))
                            (take 500 (rows df))), st'))"
    by (simp only: get_flags_def Let_def loaded option.case d6_def d5_def d4_def d3_def d2_def
          d1_def d0_def ids_def keys_def st'_def)
  obtain df6 where df6: "d6 = Inr df6"
    using res unfolding g by (cases d6) simp_all
  have recs: "recs = map (flag_record lib (filter (\<lambda>c. c \<in> set (columns df6)) flag_columns)
                            (resolved_alerts st')) (take 500 (rows df6))"
    using res unfolding g df6 by simp
  from filter_if_subframe[OF df6[unfolded d6_def]]
  obtain a5 where a5: "d5 = Inr a5" "subframe df6 a5" by blast
  from filter_if_subframe[OF a5(1)[unfolded d5_def]]
  obtain a4 where a4: "d4 = Inr a4" "subframe a5 a4" by blast
  from filter_if_subframe[OF a4(1)[unfolded d4_def]]
  obtain a3 where a3: "d3 = Inr a3" "subframe a4 a3" by blast
  from filter_if_subframe[OF a3(1)[unfolded d3_def]]
  obtain a2 where a2: "d2 = Inr a2" "subframe a3 a2" by blast
  from filter_if_subframe[OF a2(1)[unfolded d2_def]]
  obtain a1 where a1: "d1 = Inr a1" "subframe a2 a1" by blast
  from filter_if_subframe[OF a1(1)[unfolded d1_def]]
  obtain a0 where a0: "d0 = Inr a0" "subframe a1 a0" by blast
  have s0: "subframe a0 scored"
    using a0(1) unfolding d0_def flagged_rows_def by (rule where_eq_1_subframe)
  have "subframe df6 scored"
    by (rule subframe_trans[OF a5(2) subframe_trans[OF a4(2) subframe_trans[OF a3(2)
          subframe_trans[OF a2(2) subframe_trans[OF a1(2) subframe_trans[OF a0(2) s0]]]]]])
  with recs show ?thesis by (intro exI[of _ df6] exI[of _ "resolved_alerts st'"] conjI)
qed

lemma get_flags_records:
  assumes loaded: "df_scored st = Some scored"
    and tcol: "''transaction_id'' \<in> set (columns scored)"
    and res: "fst (get_flags lib clk q st) = Flags recs"
    and mem: "rec \<in> set recs"
  shows "\<exists>r \<in> set (rows scored). record_id lib rec = py_str lib (cell_of r ''transaction_id'')"
proof -
  from get_flags_frame[OF loaded res] obtain df ra where sub: "subframe df scored"
    and recs: "recs = map (flag_record lib (filter (\<lambda>c. c \<in> set (columns df)) flag_columns) ra)
                        (take 500 (rows df))" by blast
  let ?pc = "filter (\<lambda>c. c \<in> set (columns df)) flag_columns"
  have pc: "''transaction_id'' \<in> set ?pc"
    using sub tcol by (simp add: subframe_def flag_columns_def)
  from mem recs obtain r where r: "r \<in> set (take 500 (rows df))"
    "rec = flag_record lib ?pc ra r" by auto
  from r(1) have "r \<in> set (rows df)" by (rule in_set_takeD)
  with sub have "r \<in> set (rows scored)" by (auto simp: subframe_def)
  moreover have "record_id lib rec = py_str lib (cell_of r ''transaction_id'')"
    unfolding r(2) by (rule flag_record_id[OF pc])
  ultimately show ?thesis by blast
qed

end
